theory Spec2Isabelle
  imports Complex_Main "HOL-Library.Multiset" "HOL-Library.Char_ord" "HOL-Library.List_Lexorder"
begin

section \<open>Data model (app/models/mining.py)\<close>

text \<open>
  A \<open>Date\<close> column is a day number (Python's \<open>date.toordinal()\<close>), a \<open>DateTime\<close> column a
  number of microseconds; only their order and \<open>timedelta\<close> arithmetic are used. A \<open>Float\<close>
  column is read as the real number it denotes (rounding of double precision arithmetic is
  not modelled). A column that the model does not declare \<open>nullable=False\<close> (and that is not
  the primary key) may hold NULL and is an \<open>option\<close>.
\<close>

type_synonym date = int
type_synonym datetime = int

datatype ShiftType = DAY | NIGHT | MORNING | AFTERNOON

datatype EquipmentStatus = OPERATIONAL | MAINTENANCE | REPAIR | DECOMMISSIONED

datatype MaintenanceType = PREVENTIVE | CORRECTIVE | EMERGENCY | SCHEDULED

fun EquipmentStatus_value :: "EquipmentStatus \<Rightarrow> string" where
  "EquipmentStatus_value OPERATIONAL = ''operational''"
| "EquipmentStatus_value MAINTENANCE = ''maintenance''"
| "EquipmentStatus_value REPAIR = ''repair''"
| "EquipmentStatus_value DECOMMISSIONED = ''decommissioned''"

record MiningShift =
  ms_id :: int
  ms_shift_date :: date
  ms_shift_type :: ShiftType
  ms_mine_section :: string
  ms_supervisor_id :: "int option"
  ms_workers_count :: "int option"
  ms_start_time :: datetime
  ms_end_time :: "datetime option"
  ms_notes :: "string option"
  ms_created_at :: "datetime option"
  ms_updated_at :: "datetime option"

record ProductionRecord =
  pr_id :: int
  pr_shift_id :: int
  pr_equipment_id :: "int option"
  pr_ore_extracted_tonnes :: "real option"
  pr_waste_removed_tonnes :: "real option"
  pr_ore_grade_percentage :: "real option"
  pr_depth_meters :: "real option"
  pr_mining_level :: "string option"
  pr_stope_number :: "string option"
  pr_contamination_level :: "real option"
  pr_moisture_content :: "real option"
  pr_recorded_at :: "datetime option"
  pr_created_at :: "datetime option"
  pr_updated_at :: "datetime option"

record Equipment =
  eq_id :: int
  eq_equipment_code :: string
  eq_name :: string
  eq_equipment_type :: string
  eq_manufacturer :: "string option"
  eq_model :: "string option"
  eq_year_manufactured :: "int option"
  eq_status :: "EquipmentStatus option"
  eq_capacity_tonnes :: "real option"
  eq_fuel_type :: "string option"
  eq_operating_hours :: "real option"
  eq_current_location :: "string option"
  eq_assigned_section :: "string option"
  eq_commissioned_date :: "date option"
  eq_last_maintenance_date :: "date option"
  eq_next_maintenance_date :: "date option"
  eq_created_at :: "datetime option"
  eq_updated_at :: "datetime option"

record MaintenanceLog =
  ml_id :: int
  ml_equipment_id :: int
  ml_maintenance_type :: MaintenanceType
  ml_description :: string
  ml_technician_name :: "string option"
  ml_labor_hours :: "real option"
  ml_parts_cost :: "real option"
  ml_total_cost :: "real option"
  ml_parts_replaced :: "string option"
  ml_is_completed :: "bool option"
  ml_scheduled_date :: "date option"
  ml_completed_date :: "date option"
  ml_created_at :: "datetime option"
  ml_updated_at :: "datetime option"

text \<open>
  The engine behind the session: \<open>app/db/database.py\<close> creates it for PostgreSQL, the tests
  (\<open>tests/conftest.py\<close>) for SQLite. The two differ in where \<open>ORDER BY\<close> puts NULL.
\<close>

datatype dialect = PostgreSQL | SQLite

text \<open>The database a \<open>Session\<close> reads: the four tables, in storage order.\<close>

record Session =
  bind :: dialect
  mining_shifts :: "MiningShift list"
  production_records :: "ProductionRecord list"
  equipment :: "Equipment list"
  maintenance_logs :: "MaintenanceLog list"


section \<open>SQL and Python primitives\<close>

text \<open>The non-NULL values of a column.\<close>

definition non_null :: "'a option list \<Rightarrow> 'a list" where
  "non_null vs = List.map_filter (\<lambda>v. v) vs"

text \<open>\<open>SUM\<close> and \<open>AVG\<close> skip NULL and are NULL when nothing is left; \<open>COUNT(col)\<close> counts the
  non-NULL values, \<open>COUNT(DISTINCT col)\<close> the different ones.\<close>

definition sql_sum :: "real option list \<Rightarrow> real option" where
  "sql_sum vs = (case non_null vs of [] \<Rightarrow> None | x # xs \<Rightarrow> Some (sum_list (x # xs)))"

definition sql_avg :: "real option list \<Rightarrow> real option" where
  "sql_avg vs =
     (case non_null vs of [] \<Rightarrow> None
      | x # xs \<Rightarrow> Some (sum_list (x # xs) / real (length (x # xs))))"

definition sql_count :: "'a option list \<Rightarrow> nat" where
  "sql_count vs = length (non_null vs)"

definition sql_count_distinct :: "'a option list \<Rightarrow> nat" where
  "sql_count_distinct vs = length (remdups (non_null vs))"

text \<open>\<open>column == arg\<close>, \<open>column >= arg\<close> and \<open>column <= arg\<close> in a \<open>WHERE\<close> clause: not true
  against NULL.\<close>

definition sql_eq :: "'a option \<Rightarrow> 'a option \<Rightarrow> bool" where
  "sql_eq c a = (case c of None \<Rightarrow> False | Some x \<Rightarrow> (case a of None \<Rightarrow> False | Some v \<Rightarrow> x = v))"

definition sql_ge :: "'a::ord \<Rightarrow> 'a option \<Rightarrow> bool" where
  "sql_ge c a = (case a of None \<Rightarrow> False | Some v \<Rightarrow> c \<ge> v)"

definition sql_le :: "'a::ord \<Rightarrow> 'a option \<Rightarrow> bool" where
  "sql_le c a = (case a of None \<Rightarrow> False | Some v \<Rightarrow> c \<le> v)"

text \<open>\<open>a JOIN b ON on\<close> and \<open>a LEFT OUTER JOIN b ON on\<close>.\<close>

definition join :: "'a list \<Rightarrow> 'b list \<Rightarrow> ('a \<Rightarrow> 'b \<Rightarrow> bool) \<Rightarrow> ('a \<times> 'b) list" where
  "join as bs on = concat (map (\<lambda>a. map (\<lambda>b. (a, b)) (filter (on a) bs)) as)"

definition outerjoin :: "'a list \<Rightarrow> 'b list \<Rightarrow> ('a \<Rightarrow> 'b \<Rightarrow> bool) \<Rightarrow> ('a \<times> 'b option) list" where
  "outerjoin as bs on =
     concat (map (\<lambda>a. case filter (on a) bs of [] \<Rightarrow> [(a, None)]
                       | b # bs' \<Rightarrow> map (\<lambda>b. (a, Some b)) (b # bs')) as)"

text \<open>\<open>GROUP BY key\<close>: one group per different key. SQL leaves the order of the groups
  open; here they follow the last row of each.\<close>

definition group_by :: "('a \<Rightarrow> 'k) \<Rightarrow> 'a list \<Rightarrow> ('k \<times> 'a list) list" where
  "group_by key rows =
     map (\<lambda>k. (k, filter (\<lambda>r. key r = k) rows)) (remdups (map key rows))"

text \<open>\<open>ORDER BY key\<close> on a column without NULL, and \<open>ORDER BY key DESC\<close>: PostgreSQL sorts NULL
  as the largest value, so first when descending; SQLite as the smallest, so last. Rows
  with equal keys keep their order.\<close>

definition order_by :: "('a \<Rightarrow> 'k::linorder) \<Rightarrow> 'a list \<Rightarrow> 'a list" where
  "order_by key rows = sort_key key rows"

definition order_by_desc :: "dialect \<Rightarrow> ('a \<Rightarrow> 'k::linorder option) \<Rightarrow> 'a list \<Rightarrow> 'a list" where
  "order_by_desc d key rows =
     (let nulls = filter (\<lambda>r. key r = None) rows;
          vals = List.map_filter (\<lambda>r. map_option (\<lambda>v. (v, r)) (key r)) rows;
          sorted = map snd (rev (sort_key fst (rev vals)))
      in case d of PostgreSQL \<Rightarrow> nulls @ sorted | SQLite \<Rightarrow> sorted @ nulls)"

text \<open>\<open>.offset(skip).limit(limit)\<close>; the routes admit \<open>skip \<ge> 0\<close> and \<open>limit \<ge> 1\<close> only.\<close>

definition offset_limit :: "nat \<Rightarrow> nat \<Rightarrow> 'a list \<Rightarrow> 'a list" where
  "offset_limit skip limit rows = take limit (drop skip rows)"

text \<open>Python's \<open>v or d\<close> on a nullable number: \<open>None\<close> and zero are falsy.\<close>

definition py_or :: "'a::zero option \<Rightarrow> 'a \<Rightarrow> 'a" where
  "py_or v d = (case v of None \<Rightarrow> d | Some x \<Rightarrow> if x = 0 then d else x)"


section \<open>Analytics operations (app/services/mining.py)\<close>

record ProductionStats =
  total_ore_extracted :: real
  total_waste_removed :: real
  average_ore_grade :: real
  total_shifts :: nat
  average_workers_per_shift :: real
  period_start :: date
  period_end :: date

definition in_period :: "date \<Rightarrow> date \<Rightarrow> MiningShift \<Rightarrow> bool" where
  "in_period start_date end_date s \<longleftrightarrow>
     ms_shift_date s \<ge> start_date \<and> ms_shift_date s \<le> end_date"

definition get_production_stats :: "Session \<Rightarrow> date \<Rightarrow> date \<Rightarrow> ProductionStats" where
  "get_production_stats db start_date end_date =
     (let rows = filter (\<lambda>(r, s). in_period start_date end_date s)
                   (join (production_records db) (mining_shifts db)
                      (\<lambda>r s. pr_shift_id r = ms_id s));
          total_ore = sql_sum (map (\<lambda>(r, s). pr_ore_extracted_tonnes r) rows);
          total_waste = sql_sum (map (\<lambda>(r, s). pr_waste_removed_tonnes r) rows);
          avg_grade = sql_avg (map (\<lambda>(r, s). pr_ore_grade_percentage r) rows);
          shift_rows = filter (in_period start_date end_date) (mining_shifts db);
          total_shifts = sql_count (map (\<lambda>s. Some (ms_id s)) shift_rows);
          avg_workers = sql_avg (map (\<lambda>s. map_option real_of_int (ms_workers_count s)) shift_rows)
      in \<lparr> total_ore_extracted = py_or total_ore 0,
           total_waste_removed = py_or total_waste 0,
           average_ore_grade = py_or avg_grade 0,
           total_shifts = py_or (Some total_shifts) 0,
           average_workers_per_shift = py_or avg_workers 0,
           period_start = start_date,
           period_end = end_date \<rparr>)"

record DailyProduction =
  dp_date :: date
  total_ore :: real
  total_waste :: real
  shift_count :: nat
  equipment_used :: nat

definition daily_rows :: "Session \<Rightarrow> date \<Rightarrow> date \<Rightarrow> (MiningShift \<times> ProductionRecord) list" where
  "daily_rows db start_date end_date =
     filter (\<lambda>(s, r). in_period start_date end_date s)
       (join (mining_shifts db) (production_records db) (\<lambda>s r. ms_id s = pr_shift_id r))"

definition get_daily_production :: "Session \<Rightarrow> date \<Rightarrow> date \<Rightarrow> DailyProduction list" where
  "get_daily_production db start_date end_date =
     (let results = order_by fst
            (group_by (\<lambda>(s, r). ms_shift_date s) (daily_rows db start_date end_date))
      in map (\<lambda>(d, g).
           \<lparr> dp_date = d,
             total_ore = py_or (sql_sum (map (\<lambda>(s, r). pr_ore_extracted_tonnes r) g)) 0,
             total_waste = py_or (sql_sum (map (\<lambda>(s, r). pr_waste_removed_tonnes r) g)) 0,
             shift_count = py_or (Some (sql_count_distinct (map (\<lambda>(s, r). Some (ms_id s)) g))) 0,
             equipment_used =
               py_or (Some (sql_count_distinct (map (\<lambda>(s, r). pr_equipment_id r) g))) 0 \<rparr>)
         results)"

text \<open>One row of the grouped outer join of Equipment with ProductionRecord, shared by
  \<open>get_equipment_utilization\<close> and the task \<open>calculate_equipment_metrics\<close>.\<close>

record EquipmentTotals =
  et_equipment :: Equipment
  total_records :: nat
  et_total_ore :: "real option"

definition equipment_totals :: "Session \<Rightarrow> EquipmentTotals list" where
  "equipment_totals db =
     List.map_filter
       (\<lambda>(k, g). case g of [] \<Rightarrow> None
          | (e, r) # g' \<Rightarrow>
              Some \<lparr> et_equipment = e,
                     total_records = sql_count (map (\<lambda>(e, r). map_option pr_id r) g),
                     et_total_ore =
                       sql_sum (map (\<lambda>(e, r). Option.bind r pr_ore_extracted_tonnes) g) \<rparr>)
       (group_by (\<lambda>(e, r). eq_id e)
          (outerjoin (equipment db) (production_records db)
             (\<lambda>e r. sql_eq (Some (eq_id e)) (pr_equipment_id r))))"

record Utilization =
  equipment_code :: string
  name :: string
  equipment_type :: string
  status :: "string option"
  total_production_records :: nat
  uz_total_ore_extracted :: real

definition utilization_entry :: "EquipmentTotals \<Rightarrow> Utilization" where
  "utilization_entry r =
     \<lparr> equipment_code = eq_equipment_code (et_equipment r),
       name = eq_name (et_equipment r),
       equipment_type = eq_equipment_type (et_equipment r),
       status = map_option EquipmentStatus_value (eq_status (et_equipment r)),
       total_production_records = py_or (Some (total_records r)) 0,
       uz_total_ore_extracted = py_or (et_total_ore r) 0 \<rparr>"

definition get_equipment_utilization :: "Session \<Rightarrow> Utilization list" where
  "get_equipment_utilization db =
     map utilization_entry (order_by_desc (bind db) et_total_ore (equipment_totals db))"


section \<open>Listing operations (app/services/mining.py)\<close>

text \<open>Truth value of an optional filter argument in \<open>if arg:\<close>. Zero and the empty string
  are falsy as \<open>None\<close> is; a \<open>date\<close> and a member of \<open>EquipmentStatus\<close> are always truthy.\<close>

definition truthy_int :: "int option \<Rightarrow> bool" where
  "truthy_int a = (case a of None \<Rightarrow> False | Some v \<Rightarrow> v \<noteq> 0)"

definition truthy_str :: "string option \<Rightarrow> bool" where
  "truthy_str a = (case a of None \<Rightarrow> False | Some v \<Rightarrow> v \<noteq> [])"

definition truthy_obj :: "'a option \<Rightarrow> bool" where
  "truthy_obj a = (case a of None \<Rightarrow> False | Some v \<Rightarrow> True)"

text \<open>\<open>if cond: query = query.filter(p)\<close>.\<close>

definition filter_if :: "bool \<Rightarrow> ('a \<Rightarrow> bool) \<Rightarrow> 'a list \<Rightarrow> 'a list" where
  "filter_if cond p query = (if cond then filter p query else query)"

definition get_shifts ::
  "Session \<Rightarrow> nat \<Rightarrow> nat \<Rightarrow> date option \<Rightarrow> date option \<Rightarrow> string option \<Rightarrow> MiningShift list" where
  "get_shifts db skip limit start_date end_date mine_section =
     (let query = mining_shifts db;
          query = filter_if (truthy_obj start_date)
                    (\<lambda>s. sql_ge (ms_shift_date s) start_date) query;
          query = filter_if (truthy_obj end_date)
                    (\<lambda>s. sql_le (ms_shift_date s) end_date) query;
          query = filter_if (truthy_str mine_section)
                    (\<lambda>s. sql_eq (Some (ms_mine_section s)) mine_section) query
      in offset_limit skip limit
           (order_by_desc (bind db) (\<lambda>s. Some (ms_shift_date s)) query))"

definition get_production_records ::
  "Session \<Rightarrow> nat \<Rightarrow> nat \<Rightarrow> int option \<Rightarrow> int option \<Rightarrow> ProductionRecord list" where
  "get_production_records db skip limit shift_id equipment_id =
     (let query = production_records db;
          query = filter_if (truthy_int shift_id)
                    (\<lambda>r. sql_eq (Some (pr_shift_id r)) shift_id) query;
          query = filter_if (truthy_int equipment_id)
                    (\<lambda>r. sql_eq (pr_equipment_id r) equipment_id) query
      in offset_limit skip limit (order_by_desc (bind db) pr_recorded_at query))"

definition get_all_equipment ::
  "Session \<Rightarrow> nat \<Rightarrow> nat \<Rightarrow> EquipmentStatus option \<Rightarrow> string option \<Rightarrow> Equipment list" where
  "get_all_equipment db skip limit status' equipment_type' =
     (let query = equipment db;
          query = filter_if (truthy_obj status')
                    (\<lambda>e. sql_eq (eq_status e) status') query;
          query = filter_if (truthy_str equipment_type')
                    (\<lambda>e. sql_eq (Some (eq_equipment_type e)) equipment_type') query
      in offset_limit skip limit (order_by eq_equipment_code query))"

definition get_maintenance_logs ::
  "Session \<Rightarrow> nat \<Rightarrow> nat \<Rightarrow> int option \<Rightarrow> bool option \<Rightarrow> MaintenanceLog list" where
  "get_maintenance_logs db skip limit equipment_id is_completed =
     (let query = maintenance_logs db;
          query = filter_if (truthy_int equipment_id)
                    (\<lambda>l. sql_eq (Some (ml_equipment_id l)) equipment_id) query;
          query = filter_if (is_completed \<noteq> None)
                    (\<lambda>l. sql_eq (ml_is_completed l) is_completed) query
      in offset_limit skip limit (order_by_desc (bind db) ml_created_at query))"


section \<open>Operations summary (app/api/analytics.py)\<close>

record Summary =
  sm_period_start :: date
  sm_period_end :: date
  sm_total_ore_extracted :: real
  sm_total_waste_removed :: real
  sm_average_ore_grade :: real
  sm_total_shifts :: nat
  total_tracked :: nat
  top_performers :: "Utilization list"
  pending_maintenance :: nat

text \<open>\<open>today\<close> is \<open>date.today()\<close>, read from the clock by the route.\<close>

definition get_summary :: "Session \<Rightarrow> date \<Rightarrow> Summary" where
  "get_summary db today =
     (let week_ago = today - 7;
          production_stats = get_production_stats db week_ago today;
          equipment_util = get_equipment_utilization db;
          maintenance_logs' = get_maintenance_logs db 0 5 None (Some False)
      in \<lparr> sm_period_start = week_ago,
           sm_period_end = today,
           sm_total_ore_extracted = total_ore_extracted production_stats,
           sm_total_waste_removed = total_waste_removed production_stats,
           sm_average_ore_grade = average_ore_grade production_stats,
           sm_total_shifts = total_shifts production_stats,
           total_tracked = length equipment_util,
           top_performers = (if equipment_util \<noteq> [] then take 5 equipment_util else []),
           pending_maintenance = length maintenance_logs' \<rparr>)"


section \<open>Equipment metrics task (app/tasks/mining_tasks.py)\<close>

datatype py_error = ZeroDivisionError

text \<open>Python's \<open>a / b\<close> on floats raises on a zero divisor.\<close>

definition truediv :: "real \<Rightarrow> real \<Rightarrow> py_error + real" where
  "truediv a b = (if b = 0 then Inl ZeroDivisionError else Inr (a / b))"

text \<open>\<open>round(x, ndigits)\<close>: to the nearest multiple of \<open>10 ^ -ndigits\<close>, a tie to the even one.\<close>

definition round_half_even :: "real \<Rightarrow> int" where
  "round_half_even x =
     (let f = \<lfloor>x\<rfloor>; d = x - of_int f
      in if d < 1 / 2 then f else if d > 1 / 2 then f + 1
         else if even f then f else f + 1)"

definition py_round :: "real \<Rightarrow> nat \<Rightarrow> real" where
  "py_round x ndigits = of_int (round_half_even (x * 10 ^ ndigits)) / 10 ^ ndigits"

record EquipmentMetrics =
  em_equipment_id :: int
  em_equipment_code :: string
  em_name :: string
  em_status :: "string option"
  em_operating_hours :: real
  em_total_production_records :: nat
  em_total_ore_extracted :: real
  efficiency_tonnes_per_hour :: real

text \<open>The condition \<open>r.operating_hours and r.operating_hours > 0 and r.total_ore\<close> guards the
  division; \<open>and\<close> stops at the first falsy operand.\<close>

definition efficiency :: "EquipmentTotals \<Rightarrow> py_error + real" where
  "efficiency r =
     (case eq_operating_hours (et_equipment r) of
        None \<Rightarrow> Inr 0
      | Some hours \<Rightarrow>
          if hours \<noteq> 0 \<and> hours > 0
          then (case et_total_ore r of
                  None \<Rightarrow> Inr 0
                | Some ore \<Rightarrow>
                    if ore \<noteq> 0
                    then (case truediv ore hours of
                            Inl err \<Rightarrow> Inl err
                          | Inr q \<Rightarrow> Inr (py_round q 2))
                    else Inr 0)
          else Inr 0)"

definition metrics_entry :: "EquipmentTotals \<Rightarrow> py_error + EquipmentMetrics" where
  "metrics_entry r =
     (case efficiency r of
        Inl err \<Rightarrow> Inl err
      | Inr eff \<Rightarrow>
          Inr \<lparr> em_equipment_id = eq_id (et_equipment r),
                em_equipment_code = eq_equipment_code (et_equipment r),
                em_name = eq_name (et_equipment r),
                em_status = map_option EquipmentStatus_value (eq_status (et_equipment r)),
                em_operating_hours = py_or (eq_operating_hours (et_equipment r)) 0,
                em_total_production_records = py_or (Some (total_records r)) 0,
                em_total_ore_extracted = py_or (et_total_ore r) 0,
                efficiency_tonnes_per_hour = eff \<rparr>)"

text \<open>The loop \<open>for r in results: ... metrics.append(...)\<close>; an exception leaves it.\<close>

fun metrics_loop :: "EquipmentTotals list \<Rightarrow> EquipmentMetrics list \<Rightarrow> py_error + EquipmentMetrics list" where
  "metrics_loop [] metrics = Inr metrics"
| "metrics_loop (r # results) metrics =
     (case metrics_entry r of
        Inl err \<Rightarrow> Inl err
      | Inr m \<Rightarrow> metrics_loop results (metrics @ [m]))"

definition calculate_equipment_metrics :: "Session \<Rightarrow> py_error + EquipmentMetrics list" where
  "calculate_equipment_metrics db = metrics_loop (equipment_totals db) []"


section \<open>Update operations (app/services/mining.py, app/schemas/mining.py)\<close>

text \<open>
  A field of an update schema is either unset (left out of the request, and dropped by
  \<open>model_dump(exclude_unset=True)\<close>) or given, possibly as \<open>null\<close>.
\<close>

datatype 'a field = Unset | Given 'a

record MiningShiftUpdate =
  msu_shift_type :: "ShiftType option field"
  msu_mine_section :: "string option field"
  msu_workers_count :: "int option field"
  msu_end_time :: "datetime option field"
  msu_notes :: "string option field"

record ProductionRecordUpdate =
  pru_ore_extracted_tonnes :: "real option field"
  pru_waste_removed_tonnes :: "real option field"
  pru_ore_grade_percentage :: "real option field"
  pru_depth_meters :: "real option field"
  pru_mining_level :: "string option field"
  pru_stope_number :: "string option field"

record EquipmentUpdate =
  equ_name :: "string option field"
  equ_status :: "EquipmentStatus option field"
  equ_current_location :: "string option field"
  equ_assigned_section :: "string option field"
  equ_operating_hours :: "real option field"
  equ_last_maintenance_date :: "date option field"
  equ_next_maintenance_date :: "date option field"

record MaintenanceLogUpdate =
  mlu_description :: "string option field"
  mlu_technician_name :: "string option field"
  mlu_labor_hours :: "real option field"
  mlu_parts_cost :: "real option field"
  mlu_total_cost :: "real option field"
  mlu_parts_replaced :: "string option field"
  mlu_is_completed :: "bool option field"
  mlu_completed_date :: "date option field"

text \<open>The loop \<open>for key, value in update_data.items(): setattr(row, key, value)\<close> assigns each
  given field and passes over the others.\<close>

definition setattr :: "'a \<Rightarrow> 'a field \<Rightarrow> 'a" where
  "setattr old f = (case f of Unset \<Rightarrow> old | Given v \<Rightarrow> v)"

text \<open>\<open>db.commit()\<close> fails when a column declared \<open>nullable=False\<close> was set to \<open>None\<close>. The
  exception leaves the operation; the transaction is not committed, so the tables stay as
  they were and the operation yields no new database.\<close>

datatype db_error = IntegrityError

text \<open>The flush at \<open>db.commit()\<close> writes the row only if an attribute changed, and then the
  column \<open>updated_at\<close> (\<open>onupdate=datetime.utcnow\<close>) takes the current time: \<open>stamp\<close> sets it.\<close>

definition flush :: "'a \<Rightarrow> 'a \<Rightarrow> ('a \<Rightarrow> 'a) \<Rightarrow> 'a" where
  "flush old pending stamp = (if pending = old then pending else stamp pending)"

definition update_shift ::
  "Session \<Rightarrow> datetime \<Rightarrow> int \<Rightarrow> MiningShiftUpdate \<Rightarrow> db_error + Session \<times> MiningShift option" where
  "update_shift db now shift_id shift =
     (case find (\<lambda>s. ms_id s = shift_id) (mining_shifts db) of
        None \<Rightarrow> Inr (db, None)
      | Some db_shift \<Rightarrow>
          (case setattr (Some (ms_shift_type db_shift)) (msu_shift_type shift) of
             None \<Rightarrow> Inl IntegrityError
           | Some shift_type' \<Rightarrow>
          (case setattr (Some (ms_mine_section db_shift)) (msu_mine_section shift) of
             None \<Rightarrow> Inl IntegrityError
           | Some mine_section' \<Rightarrow>
               let pending = db_shift
                     \<lparr> ms_shift_type := shift_type',
                       ms_mine_section := mine_section',
                       ms_workers_count := setattr (ms_workers_count db_shift) (msu_workers_count shift),
                       ms_end_time := setattr (ms_end_time db_shift) (msu_end_time shift),
                       ms_notes := setattr (ms_notes db_shift) (msu_notes shift) \<rparr>;
                   row = flush db_shift pending (\<lambda>r. r \<lparr> ms_updated_at := Some now \<rparr>)
               in Inr (db \<lparr> mining_shifts :=
                             map (\<lambda>s. if ms_id s = shift_id then row else s) (mining_shifts db) \<rparr>,
                       Some row))))"

definition update_production_record ::
  "Session \<Rightarrow> datetime \<Rightarrow> int \<Rightarrow> ProductionRecordUpdate
     \<Rightarrow> db_error + Session \<times> ProductionRecord option" where
  "update_production_record db now record_id record =
     (case find (\<lambda>r. pr_id r = record_id) (production_records db) of
        None \<Rightarrow> Inr (db, None)
      | Some db_record \<Rightarrow>
          let pending = db_record
                \<lparr> pr_ore_extracted_tonnes :=
                    setattr (pr_ore_extracted_tonnes db_record) (pru_ore_extracted_tonnes record),
                  pr_waste_removed_tonnes :=
                    setattr (pr_waste_removed_tonnes db_record) (pru_waste_removed_tonnes record),
                  pr_ore_grade_percentage :=
                    setattr (pr_ore_grade_percentage db_record) (pru_ore_grade_percentage record),
                  pr_depth_meters := setattr (pr_depth_meters db_record) (pru_depth_meters record),
                  pr_mining_level := setattr (pr_mining_level db_record) (pru_mining_level record),
                  pr_stope_number := setattr (pr_stope_number db_record) (pru_stope_number record) \<rparr>;
              row = flush db_record pending (\<lambda>r. r \<lparr> pr_updated_at := Some now \<rparr>)
          in Inr (db \<lparr> production_records :=
                        map (\<lambda>r. if pr_id r = record_id then row else r) (production_records db) \<rparr>,
                  Some row))"

definition update_equipment ::
  "Session \<Rightarrow> datetime \<Rightarrow> int \<Rightarrow> EquipmentUpdate \<Rightarrow> db_error + Session \<times> Equipment option" where
  "update_equipment db now equipment_id equipment' =
     (case find (\<lambda>e. eq_id e = equipment_id) (equipment db) of
        None \<Rightarrow> Inr (db, None)
      | Some db_equipment \<Rightarrow>
          (case setattr (Some (eq_name db_equipment)) (equ_name equipment') of
             None \<Rightarrow> Inl IntegrityError
           | Some name' \<Rightarrow>
               let pending = db_equipment
                     \<lparr> eq_name := name',
                       eq_status := setattr (eq_status db_equipment) (equ_status equipment'),
                       eq_operating_hours :=
                         setattr (eq_operating_hours db_equipment) (equ_operating_hours equipment'),
                       eq_current_location :=
                         setattr (eq_current_location db_equipment) (equ_current_location equipment'),
                       eq_assigned_section :=
                         setattr (eq_assigned_section db_equipment) (equ_assigned_section equipment'),
                       eq_last_maintenance_date :=
                         setattr (eq_last_maintenance_date db_equipment)
                           (equ_last_maintenance_date equipment'),
                       eq_next_maintenance_date :=
                         setattr (eq_next_maintenance_date db_equipment)
                           (equ_next_maintenance_date equipment') \<rparr>;
                   row = flush db_equipment pending (\<lambda>r. r \<lparr> eq_updated_at := Some now \<rparr>)
               in Inr (db \<lparr> equipment :=
                             map (\<lambda>e. if eq_id e = equipment_id then row else e) (equipment db) \<rparr>,
                       Some row)))"

definition update_maintenance_log ::
  "Session \<Rightarrow> datetime \<Rightarrow> int \<Rightarrow> MaintenanceLogUpdate
     \<Rightarrow> db_error + Session \<times> MaintenanceLog option" where
  "update_maintenance_log db now log_id log' =
     (case find (\<lambda>l. ml_id l = log_id) (maintenance_logs db) of
        None \<Rightarrow> Inr (db, None)
      | Some db_log \<Rightarrow>
          (case setattr (Some (ml_description db_log)) (mlu_description log') of
             None \<Rightarrow> Inl IntegrityError
           | Some description' \<Rightarrow>
               let pending = db_log
                     \<lparr> ml_description := description',
                       ml_technician_name :=
                         setattr (ml_technician_name db_log) (mlu_technician_name log'),
                       ml_labor_hours := setattr (ml_labor_hours db_log) (mlu_labor_hours log'),
                       ml_parts_cost := setattr (ml_parts_cost db_log) (mlu_parts_cost log'),
                       ml_total_cost := setattr (ml_total_cost db_log) (mlu_total_cost log'),
                       ml_parts_replaced :=
                         setattr (ml_parts_replaced db_log) (mlu_parts_replaced log'),
                       ml_is_completed := setattr (ml_is_completed db_log) (mlu_is_completed log'),
                       ml_completed_date :=
                         setattr (ml_completed_date db_log) (mlu_completed_date log') \<rparr>;
                   row = flush db_log pending (\<lambda>r. r \<lparr> ml_updated_at := Some now \<rparr>)
               in Inr (db \<lparr> maintenance_logs :=
                             map (\<lambda>l. if ml_id l = log_id then row else l) (maintenance_logs db) \<rparr>,
                       Some row)))"


section \<open>Notions used in the statements\<close>

text \<open>The contribution of a nullable number to a sum: NULL adds nothing.\<close>

definition or_zero :: "real option \<Rightarrow> real" where
  "or_zero v = (case v of None \<Rightarrow> 0 | Some x \<Rightarrow> x)"

text \<open>What the grouped outer join holds for one equipment row: the production records that
  reference it, counted and summed.\<close>

definition totals_of :: "Session \<Rightarrow> Equipment \<Rightarrow> EquipmentTotals" where
  "totals_of db e =
     (let rs = filter (\<lambda>r. pr_equipment_id r = Some (eq_id e)) (production_records db)
      in \<lparr> et_equipment = e, total_records = length rs,
           et_total_ore = sql_sum (map pr_ore_extracted_tonnes rs) \<rparr>)"

text \<open>The efficiency that the guard of \<open>calculate_equipment_metrics\<close> allows: the rounded
  quotient when the operating hours are present and positive and the ore total is present
  and not zero, and 0 otherwise.\<close>

definition guarded_efficiency :: "EquipmentTotals \<Rightarrow> real" where
  "guarded_efficiency r =
     (case eq_operating_hours (et_equipment r) of
        None \<Rightarrow> 0
      | Some hours \<Rightarrow>
          (case et_total_ore r of
             None \<Rightarrow> 0
           | Some ore \<Rightarrow> if 0 < hours \<and> ore \<noteq> 0 then py_round (ore / hours) 2 else 0))"

text \<open>An unset field of an update request leaves the column as it was.\<close>

definition kept :: "'a field \<Rightarrow> 'b \<Rightarrow> 'b \<Rightarrow> bool" where
  "kept f old new \<longleftrightarrow> (f = Unset \<longrightarrow> new = old)"

definition shift_frame :: "MiningShiftUpdate \<Rightarrow> MiningShift \<Rightarrow> MiningShift \<Rightarrow> bool" where
  "shift_frame u old new \<longleftrightarrow>
     ms_id new = ms_id old \<and> ms_shift_date new = ms_shift_date old \<and>
     ms_supervisor_id new = ms_supervisor_id old \<and> ms_start_time new = ms_start_time old \<and>
     ms_created_at new = ms_created_at old \<and>
     kept (msu_shift_type u) (ms_shift_type old) (ms_shift_type new) \<and>
     kept (msu_mine_section u) (ms_mine_section old) (ms_mine_section new) \<and>
     kept (msu_workers_count u) (ms_workers_count old) (ms_workers_count new) \<and>
     kept (msu_end_time u) (ms_end_time old) (ms_end_time new) \<and>
     kept (msu_notes u) (ms_notes old) (ms_notes new)"

definition record_frame ::
  "ProductionRecordUpdate \<Rightarrow> ProductionRecord \<Rightarrow> ProductionRecord \<Rightarrow> bool" where
  "record_frame u old new \<longleftrightarrow>
     pr_id new = pr_id old \<and> pr_shift_id new = pr_shift_id old \<and>
     pr_equipment_id new = pr_equipment_id old \<and>
     pr_contamination_level new = pr_contamination_level old \<and>
     pr_moisture_content new = pr_moisture_content old \<and>
     pr_recorded_at new = pr_recorded_at old \<and> pr_created_at new = pr_created_at old \<and>
     kept (pru_ore_extracted_tonnes u) (pr_ore_extracted_tonnes old) (pr_ore_extracted_tonnes new) \<and>
     kept (pru_waste_removed_tonnes u) (pr_waste_removed_tonnes old) (pr_waste_removed_tonnes new) \<and>
     kept (pru_ore_grade_percentage u) (pr_ore_grade_percentage old) (pr_ore_grade_percentage new) \<and>
     kept (pru_depth_meters u) (pr_depth_meters old) (pr_depth_meters new) \<and>
     kept (pru_mining_level u) (pr_mining_level old) (pr_mining_level new) \<and>
     kept (pru_stope_number u) (pr_stope_number old) (pr_stope_number new)"

definition equipment_frame :: "EquipmentUpdate \<Rightarrow> Equipment \<Rightarrow> Equipment \<Rightarrow> bool" where
  "equipment_frame u old new \<longleftrightarrow>
     eq_id new = eq_id old \<and> eq_equipment_code new = eq_equipment_code old \<and>
     eq_equipment_type new = eq_equipment_type old \<and>
     eq_manufacturer new = eq_manufacturer old \<and> eq_model new = eq_model old \<and>
     eq_year_manufactured new = eq_year_manufactured old \<and>
     eq_capacity_tonnes new = eq_capacity_tonnes old \<and> eq_fuel_type new = eq_fuel_type old \<and>
     eq_commissioned_date new = eq_commissioned_date old \<and>
     eq_created_at new = eq_created_at old \<and>
     kept (equ_name u) (eq_name old) (eq_name new) \<and>
     kept (equ_status u) (eq_status old) (eq_status new) \<and>
     kept (equ_current_location u) (eq_current_location old) (eq_current_location new) \<and>
     kept (equ_assigned_section u) (eq_assigned_section old) (eq_assigned_section new) \<and>
     kept (equ_operating_hours u) (eq_operating_hours old) (eq_operating_hours new) \<and>
     kept (equ_last_maintenance_date u) (eq_last_maintenance_date old)
       (eq_last_maintenance_date new) \<and>
     kept (equ_next_maintenance_date u) (eq_next_maintenance_date old)
       (eq_next_maintenance_date new)"

definition log_frame :: "MaintenanceLogUpdate \<Rightarrow> MaintenanceLog \<Rightarrow> MaintenanceLog \<Rightarrow> bool" where
  "log_frame u old new \<longleftrightarrow>
     ml_id new = ml_id old \<and> ml_equipment_id new = ml_equipment_id old \<and>
     ml_maintenance_type new = ml_maintenance_type old \<and>
     ml_scheduled_date new = ml_scheduled_date old \<and> ml_created_at new = ml_created_at old \<and>
     kept (mlu_description u) (ml_description old) (ml_description new) \<and>
     kept (mlu_technician_name u) (ml_technician_name old) (ml_technician_name new) \<and>
     kept (mlu_labor_hours u) (ml_labor_hours old) (ml_labor_hours new) \<and>
     kept (mlu_parts_cost u) (ml_parts_cost old) (ml_parts_cost new) \<and>
     kept (mlu_total_cost u) (ml_total_cost old) (ml_total_cost new) \<and>
     kept (mlu_parts_replaced u) (ml_parts_replaced old) (ml_parts_replaced new) \<and>
     kept (mlu_is_completed u) (ml_is_completed old) (ml_is_completed new) \<and>
     kept (mlu_completed_date u) (ml_completed_date old) (ml_completed_date new)"


section \<open>Example data\<close>

definition shift_row :: "int \<Rightarrow> date \<Rightarrow> MiningShift" where
  "shift_row i d =
     \<lparr> ms_id = i, ms_shift_date = d, ms_shift_type = DAY, ms_mine_section = ''North'',
       ms_supervisor_id = None, ms_workers_count = Some 40, ms_start_time = 0,
       ms_end_time = None, ms_notes = None, ms_created_at = Some 100, ms_updated_at = Some 100 \<rparr>"

definition record_row :: "int \<Rightarrow> int \<Rightarrow> int option \<Rightarrow> real \<Rightarrow> ProductionRecord" where
  "record_row i shift_id equipment_id ore =
     \<lparr> pr_id = i, pr_shift_id = shift_id, pr_equipment_id = equipment_id,
       pr_ore_extracted_tonnes = Some ore, pr_waste_removed_tonnes = Some 0,
       pr_ore_grade_percentage = Some 2, pr_depth_meters = Some 0, pr_mining_level = None,
       pr_stope_number = None, pr_contamination_level = Some 0, pr_moisture_content = Some 0,
       pr_recorded_at = Some 100, pr_created_at = Some 100, pr_updated_at = Some 100 \<rparr>"

definition equipment_row :: "int \<Rightarrow> string \<Rightarrow> real option \<Rightarrow> Equipment" where
  "equipment_row i code hours =
     \<lparr> eq_id = i, eq_equipment_code = code, eq_name = ''Loader'', eq_equipment_type = ''loader'',
       eq_manufacturer = None, eq_model = None, eq_year_manufactured = None,
       eq_status = Some OPERATIONAL, eq_capacity_tonnes = None, eq_fuel_type = None,
       eq_operating_hours = hours, eq_current_location = None, eq_assigned_section = None,
       eq_commissioned_date = None, eq_last_maintenance_date = None,
       eq_next_maintenance_date = None, eq_created_at = Some 100, eq_updated_at = Some 100 \<rparr>"

definition log_row :: "int \<Rightarrow> int \<Rightarrow> bool \<Rightarrow> MaintenanceLog" where
  "log_row i equipment_id completed =
     \<lparr> ml_id = i, ml_equipment_id = equipment_id, ml_maintenance_type = PREVENTIVE,
       ml_description = ''service'', ml_technician_name = None, ml_labor_hours = Some 0,
       ml_parts_cost = Some 0, ml_total_cost = Some 0, ml_parts_replaced = None,
       ml_is_completed = Some completed, ml_scheduled_date = None, ml_completed_date = None,
       ml_created_at = Some 100, ml_updated_at = Some 100 \<rparr>"

definition example_db :: Session where
  "example_db =
     \<lparr> bind = PostgreSQL,
       mining_shifts = [shift_row 1 10, shift_row 2 12],
       production_records =
         [record_row 1 1 (Some 2) 10, record_row 2 1 (Some 2) (11 / 2), record_row 3 2 None 7],
       equipment = [equipment_row 1 ''EQ-1'' (Some 0), equipment_row 2 ''EQ-2'' (Some 4)],
       maintenance_logs = [log_row 1 1 False, log_row 2 2 True] \<rparr>"

text \<open>Six maintenance logs, none of them completed.\<close>

definition backlog_db :: Session where
  "backlog_db =
     \<lparr> bind = PostgreSQL, mining_shifts = [], production_records = [],
       equipment = [equipment_row 1 ''EQ-1'' (Some 0)],
       maintenance_logs =
         [log_row 1 1 False, log_row 2 1 False, log_row 3 1 False,
          log_row 4 1 False, log_row 5 1 False, log_row 6 1 False] \<rparr>"

text \<open>Update requests that give one field each.\<close>

definition notes_update :: MiningShiftUpdate where
  "notes_update =
     \<lparr> msu_shift_type = Unset, msu_mine_section = Unset, msu_workers_count = Unset,
       msu_end_time = Unset, msu_notes = Given (Some ''blast delayed'') \<rparr>"

definition ore_update :: ProductionRecordUpdate where
  "ore_update =
     \<lparr> pru_ore_extracted_tonnes = Given (Some 12), pru_waste_removed_tonnes = Unset,
       pru_ore_grade_percentage = Unset, pru_depth_meters = Unset, pru_mining_level = Unset,
       pru_stope_number = Unset \<rparr>"

definition status_update :: EquipmentUpdate where
  "status_update =
     \<lparr> equ_name = Unset, equ_status = Given (Some MAINTENANCE), equ_current_location = Unset,
       equ_assigned_section = Unset, equ_operating_hours = Unset,
       equ_last_maintenance_date = Unset, equ_next_maintenance_date = Unset \<rparr>"

definition completion_update :: MaintenanceLogUpdate where
  "completion_update =
     \<lparr> mlu_description = Unset, mlu_technician_name = Unset, mlu_labor_hours = Unset,
       mlu_parts_cost = Unset, mlu_total_cost = Unset, mlu_parts_replaced = Unset,
       mlu_is_completed = Given (Some True), mlu_completed_date = Unset \<rparr>"


section \<open>Properties of the primitives\<close>

lemmas example_rows = shift_row_def record_row_def equipment_row_def log_row_def

lemma sql_eq_Some [simp]: "sql_eq c (Some v) \<longleftrightarrow> c = Some v"
  by (auto simp: sql_eq_def split: option.splits)

lemma sql_eq_None [simp]: "\<not> sql_eq c None"
  by (simp add: sql_eq_def split: option.splits)

lemma non_null_Nil [simp]: "non_null [] = []"
  by (simp add: non_null_def map_filter_simps)

lemma non_null_Cons [simp]:
  "non_null (v # vs) = (case v of None \<Rightarrow> non_null vs | Some x \<Rightarrow> x # non_null vs)"
  by (simp add: non_null_def map_filter_simps split: option.splits)

lemma non_null_append [simp]: "non_null (xs @ ys) = non_null xs @ non_null ys"
  by (induction xs) (auto split: option.splits)

lemma sum_list_non_null: "sum_list (non_null vs) = (\<Sum>v\<leftarrow>vs. or_zero v)"
  by (induction vs) (auto simp: or_zero_def split: option.splits)

lemma py_or_sql_sum: "py_or (sql_sum vs) 0 = (\<Sum>v\<leftarrow>vs. or_zero v)"
  by (cases "non_null vs") (auto simp: py_or_def sql_sum_def sum_list_non_null [symmetric])

lemma join_Nil [simp]: "join [] bs on = []"
  by (simp add: join_def)

lemma join_Cons [simp]:
  "join (a # as) bs on = map (\<lambda>b. (a, b)) (filter (on a) bs) @ join as bs on"
  by (simp add: join_def)

lemma sum_list_const: "(\<Sum>x\<leftarrow>xs. c) = c * real (length xs)"
  by (induction xs) (auto simp: algebra_simps)

lemma sum_join_left:
  "(\<Sum>(a, b)\<leftarrow>filter (\<lambda>(a, b). P b) (join as bs on). g a) =
   (\<Sum>a\<leftarrow>as. g a * real (length (filter (\<lambda>b. on a b \<and> P b) bs)))"
proof (induction as)
  case Nil
  show ?case by simp
next
  case (Cons a as)
  have "(\<Sum>(a', b)\<leftarrow>filter (\<lambda>(a, b). P b) (map (Pair a) (filter (on a) bs)). g a')
        = g a * real (length (filter (\<lambda>b. on a b \<and> P b) bs))"
    by (induction bs) (auto simp: algebra_simps)
  with Cons show ?case by simp
qed

lemma unique_key_filter:
  assumes "distinct (map key xs)"
  shows "length (filter (\<lambda>x. k = key x \<and> P x) xs) = (if \<exists>x\<in>set xs. key x = k \<and> P x then 1 else 0)"
  using assms by (induction xs) (auto simp: image_iff)

lemma map_fst_group_by: "map fst (group_by key rows) = remdups (map key rows)"
  by (simp add: group_by_def comp_def)

lemma distinct_map_sort_key: "distinct (map f (sort_key f xs)) = distinct (map f xs)"
  by (induction xs) (auto simp: distinct_insort_key)

lemma map_dp_date_daily:
  "map dp_date (get_daily_production db start_date end_date) =
   map fst (sort_key fst (group_by (\<lambda>(s, r). ms_shift_date s) (daily_rows db start_date end_date)))"
  by (simp add: get_daily_production_def order_by_def comp_def case_prod_unfold)

lemma set_non_null: "set (non_null vs) = {x. Some x \<in> set vs}"
  by (induction vs) (auto split: option.splits)

lemma sql_count_distinct_card: "sql_count_distinct vs = card {x. Some x \<in> set vs}"
  by (simp add: sql_count_distinct_def length_remdups_card_conv set_non_null)

lemma py_or_count [simp]: "py_or (Some (n::nat)) 0 = n"
  by (simp add: py_or_def)

lemma set_join: "set (join as bs on) = {(a, b). a \<in> set as \<and> b \<in> set bs \<and> on a b}"
  by (induction as) auto

lemma set_daily_rows:
  "set (daily_rows db start_date end_date) =
   {(s, r). s \<in> set (mining_shifts db) \<and> r \<in> set (production_records db) \<and>
            ms_id s = pr_shift_id r \<and> in_period start_date end_date s}"
  by (auto simp: daily_rows_def set_join)

lemma daily_entry_group:
  assumes "d \<in> set (get_daily_production db start_date end_date)"
  shows "start_date \<le> dp_date d \<and> dp_date d \<le> end_date \<and>
         equipment_used d = sql_count_distinct (map (\<lambda>(s, r). pr_equipment_id r)
            (filter (\<lambda>(s, r). ms_shift_date s = dp_date d) (daily_rows db start_date end_date)))"
  using assms
  by (auto simp: get_daily_production_def order_by_def group_by_def set_daily_rows in_period_def
        case_prod_unfold)

lemma remdups_block:
  assumes "xs \<noteq> []" "\<forall>x\<in>set xs. x = c" "c \<notin> set ys"
  shows "remdups (xs @ ys) = c # remdups ys"
  using assms
proof (induction xs)
  case Nil
  then show ?case by simp
next
  case (Cons x xs)
  then show ?case by (cases xs) auto
qed

lemma group_by_blocks:
  assumes "distinct (map k as)"
    and "\<forall>a\<in>set as. blk a \<noteq> [] \<and> (\<forall>x\<in>set (blk a). key x = k a)"
  shows "group_by key (concat (map blk as)) = map (\<lambda>a. (k a, blk a)) as"
  using assms
proof (induction as)
  case Nil
  show ?case by (simp add: group_by_def)
next
  case (Cons a as)
  let ?rest = "concat (map blk as)"
  have keys_rest: "set (map key ?rest) \<subseteq> k ` set as"
    using Cons.prems(2) by auto
  have fresh: "k a \<notin> set (map key ?rest)"
    using Cons.prems(1) keys_rest by auto
  have blk: "blk a \<noteq> []" "\<forall>x\<in>set (blk a). key x = k a"
    using Cons.prems(2) by simp_all
  have rd: "remdups (map key (blk a) @ map key ?rest) = k a # remdups (map key ?rest)"
    by (rule remdups_block) (use blk fresh in auto)
  have "\<forall>x\<in>set ?rest. key x \<noteq> k a"
    using fresh by (metis image_eqI set_map)
  then have own: "filter (\<lambda>r. key r = k a) (blk a) = blk a"
      "filter (\<lambda>r. key r = k a) ?rest = []"
    using blk by (simp_all add: filter_empty_conv filter_id_conv)
  have other: "filter (\<lambda>r. key r = c) (blk a) = []"
    if "c \<in> set (remdups (map key ?rest))" for c
  proof -
    from that have "c \<in> set (map key ?rest)" by simp
    with fresh have "c \<noteq> k a" by metis
    with blk show ?thesis by (auto simp: filter_empty_conv)
  qed
  have "group_by key (concat (map blk (a # as))) =
        (k a, blk a) # map (\<lambda>c. (c, filter (\<lambda>r. key r = c) (blk a) @ filter (\<lambda>r. key r = c) ?rest))
                         (remdups (map key ?rest))"
    by (simp add: group_by_def rd own)
  also have "map (\<lambda>c. (c, filter (\<lambda>r. key r = c) (blk a) @ filter (\<lambda>r. key r = c) ?rest))
               (remdups (map key ?rest)) = group_by key ?rest"
    unfolding group_by_def by (rule map_cong [OF refl]) (simp add: other)
  also have "group_by key ?rest = map (\<lambda>a. (k a, blk a)) as"
    using Cons.IH Cons.prems by simp
  finally show ?case by simp
qed

lemma non_null_map_Some: "non_null (map (\<lambda>x. Some (f x)) xs) = map f xs"
  by (induction xs) simp_all

lemma equipment_totals_eq:
  assumes "distinct (map eq_id (equipment db))"
  shows "equipment_totals db = map (totals_of db) (equipment db)"
proof -
  let ?on = "\<lambda>e r. sql_eq (Some (eq_id e)) (pr_equipment_id r)"
  let ?blk = "\<lambda>e. case filter (?on e) (production_records db) of [] \<Rightarrow> [(e, None)]
                   | b # bs' \<Rightarrow> map (\<lambda>b. (e, Some b)) (b # bs')"
  let ?agg = "\<lambda>(k, g). case g of [] \<Rightarrow> None
          | (e, r) # g' \<Rightarrow>
              Some \<lparr> et_equipment = e,
                     total_records = sql_count (map (\<lambda>(e, r). map_option pr_id r) g),
                     et_total_ore =
                       sql_sum (map (\<lambda>(e, r). Option.bind r pr_ore_extracted_tonnes) g) \<rparr>"
  have blocks: "\<forall>e\<in>set (equipment db). ?blk e \<noteq> [] \<and> (\<forall>x\<in>set (?blk e). (\<lambda>(e, r). eq_id e) x = eq_id e)"
    by (auto split: list.splits)
  have "group_by (\<lambda>(e, r). eq_id e) (outerjoin (equipment db) (production_records db) ?on) =
        map (\<lambda>e. (eq_id e, ?blk e)) (equipment db)"
    unfolding outerjoin_def using assms blocks by (rule group_by_blocks)
  moreover have "?agg (eq_id e, ?blk e) = Some (totals_of db e)" for e
  proof -
    have on: "?on e = (\<lambda>r. pr_equipment_id r = Some (eq_id e))"
      by (auto simp: sql_eq_def split: option.splits)
    show ?thesis
      by (cases "filter (\<lambda>r. pr_equipment_id r = Some (eq_id e)) (production_records db)")
        (simp_all add: on totals_of_def sql_count_def sql_sum_def comp_def non_null_map_Some)
  qed
  ultimately show ?thesis
    by (simp add: equipment_totals_def List.map_filter_def comp_def)
qed

lemma map_filter_pairs:
  "map snd (List.map_filter (\<lambda>r. map_option (\<lambda>v. (v, r)) (key r)) rows) =
   filter (\<lambda>r. key r \<noteq> None) rows"
  by (induction rows) (auto simp: map_filter_simps split: option.splits)

lemma mset_order_by_desc: "mset (order_by_desc d key rows) = mset rows"
proof -
  let ?vals = "List.map_filter (\<lambda>r. map_option (\<lambda>v. (v, r)) (key r)) rows"
  have "mset (map snd (rev (sort_key fst (rev ?vals)))) = mset (map snd ?vals)"
    by simp
  also have "\<dots> = mset (filter (\<lambda>r. key r \<noteq> None) rows)"
    by (simp only: map_filter_pairs)
  finally have sorted: "mset (map snd (rev (sort_key fst (rev ?vals)))) =
      filter_mset (\<lambda>r. key r \<noteq> None) (mset rows)"
    by simp
  have "filter_mset (\<lambda>r. key r = None) (mset rows) + filter_mset (\<lambda>r. key r \<noteq> None) (mset rows)
        = mset rows"
    by (rule multiset_partition [symmetric])
  with sorted show ?thesis
    by (cases d) (simp_all add: order_by_desc_def Let_def add.commute)
qed

lemma length_order_by_desc: "length (order_by_desc d key rows) = length rows"
  using mset_order_by_desc [of d key rows] by (metis size_mset)

lemma set_order_by_desc: "set (order_by_desc d key rows) = set rows"
  using mset_order_by_desc [of d key rows] by (metis set_mset_mset)

lemma set_map_filter_pairs:
  "set (List.map_filter (\<lambda>r. map_option (\<lambda>v. (v, r)) (key r)) rows) =
   {(v, r). r \<in> set rows \<and> key r = Some v}"
  by (induction rows) (auto simp: map_filter_simps split: option.splits)

lemma sorted_desc_rev_sort_key: "sorted_wrt (\<ge>) (map f (rev (sort_key f xs)))"
proof -
  have "sorted_wrt (\<le>) (map f (sort_key f xs))"
    by simp
  then show ?thesis
    by (simp add: rev_map [symmetric] sorted_wrt_rev del: sorted_sort_key)
qed

lemma order_by_desc_sqlite_descending:
  assumes "\<forall>r\<in>set rows. 0 \<le> or_zero (key r)"
  shows "sorted_wrt (\<ge>) (map (\<lambda>r. or_zero (key r)) (order_by_desc SQLite key rows))"
proof -
  let ?vals = "List.map_filter (\<lambda>r. map_option (\<lambda>v. (v, r)) (key r)) rows"
  let ?sorted = "rev (sort_key fst (rev ?vals))"
  have pairs: "\<forall>p\<in>set ?sorted. key (snd p) = Some (fst p) \<and> snd p \<in> set rows"
    by (auto simp: set_map_filter_pairs)
  then have "map (\<lambda>r. or_zero (key r)) (map snd ?sorted) = map fst ?sorted"
    by (simp add: or_zero_def)
  then have first: "sorted_wrt (\<ge>) (map (\<lambda>r. or_zero (key r)) (map snd ?sorted))"
    by (simp only: sorted_desc_rev_sort_key)
  have nulls: "map (\<lambda>r. or_zero (key r)) (filter (\<lambda>r. key r = None) rows) =
      replicate (length (filter (\<lambda>r. key r = None) rows)) 0"
    by (induction rows) (auto simp: or_zero_def)
  have "\<forall>x\<in>set (map (\<lambda>r. or_zero (key r)) (map snd ?sorted)). 0 \<le> x"
  proof -
    have "0 \<le> or_zero (key (snd p))" if "p \<in> set ?sorted" for p
      using pairs assms that by blast
    then show ?thesis by auto
  qed
  moreover have "sorted_wrt (\<ge>) (replicate n (0::real))" for n
    by (induction n) auto
  ultimately show ?thesis
    using first
    unfolding order_by_desc_def Let_def dialect.case map_append nulls
    by (auto simp: sorted_wrt_append)
qed


section \<open>Period production statistics\<close>

text \<open>
  Claim C1. With unique shift ids, \<open>total_ore_extracted\<close> of \<open>get_production_stats\<close> is the sum
  of \<open>ore_extracted_tonnes\<close> over exactly the production records whose parent shift has its
  date in \<open>[start_date, end_date]\<close>, both ends included; a NULL tonnage adds nothing, and a
  record whose shift lies outside the range (or does not exist) is left out.
\<close>

theorem production_stats_total_ore:
  assumes "distinct (map ms_id (mining_shifts db))"
  shows "total_ore_extracted (get_production_stats db start_date end_date) =
         (\<Sum>r\<leftarrow>filter (\<lambda>r. \<exists>s\<in>set (mining_shifts db). ms_id s = pr_shift_id r \<and>
                             start_date \<le> ms_shift_date s \<and> ms_shift_date s \<le> end_date)
                     (production_records db).
            or_zero (pr_ore_extracted_tonnes r))"
proof -
  let ?P = "in_period start_date end_date"
  let ?rows = "filter (\<lambda>(r, s). ?P s)
                 (join (production_records db) (mining_shifts db) (\<lambda>r s. pr_shift_id r = ms_id s))"
  have "total_ore_extracted (get_production_stats db start_date end_date) =
        (\<Sum>(r, s)\<leftarrow>?rows. or_zero (pr_ore_extracted_tonnes r))"
    by (simp add: get_production_stats_def Let_def py_or_sql_sum comp_def case_prod_unfold)
  also have "\<dots> = (\<Sum>r\<leftarrow>production_records db. or_zero (pr_ore_extracted_tonnes r) *
                  real (length (filter (\<lambda>s. pr_shift_id r = ms_id s \<and> ?P s) (mining_shifts db))))"
    by (rule sum_join_left)
  also have "\<dots> = (\<Sum>r\<leftarrow>production_records db.
                  if \<exists>s\<in>set (mining_shifts db). ms_id s = pr_shift_id r \<and> ?P s
                  then or_zero (pr_ore_extracted_tonnes r) else 0)"
  proof (rule arg_cong [where f = sum_list], rule map_cong [OF refl])
    fix r
    have "length (filter (\<lambda>s. pr_shift_id r = ms_id s \<and> ?P s) (mining_shifts db)) =
          (if \<exists>s\<in>set (mining_shifts db). ms_id s = pr_shift_id r \<and> ?P s then 1 else 0)"
      using assms by (rule unique_key_filter)
    then show "or_zero (pr_ore_extracted_tonnes r) *
            real (length (filter (\<lambda>s. pr_shift_id r = ms_id s \<and> ?P s) (mining_shifts db))) =
          (if \<exists>s\<in>set (mining_shifts db). ms_id s = pr_shift_id r \<and> ?P s
           then or_zero (pr_ore_extracted_tonnes r) else 0)"
      by auto
  qed
  also have "\<dots> = (\<Sum>r\<leftarrow>filter (\<lambda>r. \<exists>s\<in>set (mining_shifts db). ms_id s = pr_shift_id r \<and> ?P s)
                     (production_records db). or_zero (pr_ore_extracted_tonnes r))"
    by (simp add: sum_list_map_filter')
  finally show ?thesis by (simp add: in_period_def)
qed

theorem production_stats_total_ore_witness:
  "distinct (map ms_id (mining_shifts example_db)) \<and>
   total_ore_extracted (get_production_stats example_db 10 11) = 31 / 2"
proof -
  have keys: "distinct (map ms_id (mining_shifts example_db))"
    by (simp add: example_db_def example_rows)
  from production_stats_total_ore [OF keys, of 10 11] keys show ?thesis
    by (simp add: example_db_def example_rows or_zero_def)
qed

text \<open>
  Claim C4. When no shift has its date in the range (so that no production record is joined
  to one either), \<open>get_production_stats\<close> returns zero for every numeric field and the two
  requested dates unchanged. The function has no failing branch.
\<close>

theorem production_stats_empty_period:
  assumes "\<forall>s\<in>set (mining_shifts db). \<not> (start_date \<le> ms_shift_date s \<and> ms_shift_date s \<le> end_date)"
  shows "get_production_stats db start_date end_date =
         \<lparr> total_ore_extracted = 0, total_waste_removed = 0, average_ore_grade = 0,
           total_shifts = 0, average_workers_per_shift = 0,
           period_start = start_date, period_end = end_date \<rparr>"
proof -
  have shifts: "filter (in_period start_date end_date) (mining_shifts db) = []"
    using assms by (auto simp: filter_empty_conv in_period_def)
  have rows: "filter (\<lambda>(r, s). in_period start_date end_date s)
          (join rs (mining_shifts db) (\<lambda>r s. pr_shift_id r = ms_id s)) = []" for rs
    using assms by (induction rs) (auto simp: filter_empty_conv in_period_def)
  show ?thesis
    by (simp add: shifts rows get_production_stats_def Let_def sql_sum_def sql_avg_def sql_count_def py_or_def)
qed

theorem production_stats_empty_period_witness:
  "get_production_stats example_db 20 30 =
     \<lparr> total_ore_extracted = 0, total_waste_removed = 0, average_ore_grade = 0,
       total_shifts = 0, average_workers_per_shift = 0, period_start = 20, period_end = 30 \<rparr>"
proof -
  have none: "\<forall>s\<in>set (mining_shifts example_db). \<not> (20 \<le> ms_shift_date s \<and> ms_shift_date s \<le> 30)"
    by (simp add: example_db_def example_rows)
  from production_stats_empty_period [OF none] show ?thesis .
qed


section \<open>Daily production rollup\<close>

lemma example_daily:
  "get_daily_production example_db 0 20 =
     [\<lparr> dp_date = 10, total_ore = 31 / 2, total_waste = 0, shift_count = 1, equipment_used = 1 \<rparr>,
      \<lparr> dp_date = 12, total_ore = 7, total_waste = 0, shift_count = 1, equipment_used = 0 \<rparr>]"
  by (simp add: get_daily_production_def daily_rows_def example_db_def example_rows in_period_def
      group_by_def order_by_def sql_sum_def sql_count_distinct_def py_or_def)

text \<open>
  Claim C6. The dates of the entries returned by \<open>get_daily_production\<close> are strictly
  ascending, so no date occurs twice.
\<close>

theorem daily_production_strictly_ascending:
  "sorted_wrt (<) (map dp_date (get_daily_production db start_date end_date))"
  unfolding map_dp_date_daily strict_sorted_iff
  by (simp add: distinct_map_sort_key map_fst_group_by)

theorem daily_production_strictly_ascending_witness:
  "sorted_wrt (<) [10, 12 :: int]"
  using daily_production_strictly_ascending [of example_db 0 20]
  by (simp only: example_daily list.map DailyProduction.simps)

text \<open>
  Claim C7. \<open>equipment_used\<close> of an entry of \<open>get_daily_production\<close> is the number of different
  equipment ids that the production records of the shifts of that date reference: an id is
  counted once however many records carry it, and a record without equipment id adds nothing.
\<close>

theorem daily_production_equipment_used:
  assumes "d \<in> set (get_daily_production db start_date end_date)"
  shows "equipment_used d =
         card {eid. \<exists>r\<in>set (production_records db). \<exists>s\<in>set (mining_shifts db).
                 ms_id s = pr_shift_id r \<and> ms_shift_date s = dp_date d \<and>
                 pr_equipment_id r = Some eid}"
proof -
  from daily_entry_group [OF assms]
  have range: "start_date \<le> dp_date d" "dp_date d \<le> end_date"
    and used: "equipment_used d = sql_count_distinct (map (\<lambda>(s, r). pr_equipment_id r)
            (filter (\<lambda>(s, r). ms_shift_date s = dp_date d) (daily_rows db start_date end_date)))"
    by simp_all
  have "{x. Some x \<in> set (map (\<lambda>(s, r). pr_equipment_id r)
            (filter (\<lambda>(s, r). ms_shift_date s = dp_date d) (daily_rows db start_date end_date)))}
        = {eid. \<exists>r\<in>set (production_records db). \<exists>s\<in>set (mining_shifts db).
                 ms_id s = pr_shift_id r \<and> ms_shift_date s = dp_date d \<and>
                 pr_equipment_id r = Some eid}"
    using range by (auto simp: set_daily_rows in_period_def image_iff) force+
  with used show ?thesis
    by (simp only: sql_count_distinct_card)
qed

theorem daily_production_equipment_used_witness:
  "\<lparr> dp_date = 10, total_ore = 31 / 2, total_waste = 0, shift_count = 1, equipment_used = 1 \<rparr>
     \<in> set (get_daily_production example_db 0 20) \<and>
   card {eid. \<exists>r\<in>set (production_records example_db). \<exists>s\<in>set (mining_shifts example_db).
           ms_id s = pr_shift_id r \<and> ms_shift_date s = 10 \<and> pr_equipment_id r = Some eid} = 1"
proof -
  let ?d = "\<lparr> dp_date = 10, total_ore = 31 / 2, total_waste = 0, shift_count = 1,
              equipment_used = 1 \<rparr>"
  have entry: "?d \<in> set (get_daily_production example_db 0 20)"
    by (simp add: example_daily)
  from daily_production_equipment_used [OF entry] entry show ?thesis
    by simp
qed


section \<open>Equipment utilization\<close>

lemma utilization_entry_totals_of:
  "utilization_entry (totals_of db e) =
     \<lparr> equipment_code = eq_equipment_code e, name = eq_name e,
       equipment_type = eq_equipment_type e,
       status = map_option EquipmentStatus_value (eq_status e),
       total_production_records =
         length (filter (\<lambda>r. pr_equipment_id r = Some (eq_id e)) (production_records db)),
       uz_total_ore_extracted =
         (\<Sum>r\<leftarrow>filter (\<lambda>r. pr_equipment_id r = Some (eq_id e)) (production_records db).
            or_zero (pr_ore_extracted_tonnes r)) \<rparr>"
  by (simp add: utilization_entry_def totals_of_def Let_def py_or_sql_sum comp_def)

lemma example_totals:
  "equipment_totals example_db =
     [\<lparr> et_equipment = equipment_row 1 ''EQ-1'' (Some 0), total_records = 0, et_total_ore = None \<rparr>,
      \<lparr> et_equipment = equipment_row 2 ''EQ-2'' (Some 4), total_records = 2,
        et_total_ore = Some (31 / 2) \<rparr>]"
  by (simp add: equipment_totals_def outerjoin_def group_by_def sql_count_def
      sql_sum_def example_db_def example_rows)

lemma example_utilization:
  "get_equipment_utilization example_db =
     [\<lparr> equipment_code = ''EQ-1'', name = ''Loader'', equipment_type = ''loader'',
        status = Some ''operational'', total_production_records = 0, uz_total_ore_extracted = 0 \<rparr>,
      \<lparr> equipment_code = ''EQ-2'', name = ''Loader'', equipment_type = ''loader'',
        status = Some ''operational'', total_production_records = 2,
        uz_total_ore_extracted = 31 / 2 \<rparr>]"
proof -
  have "bind example_db = PostgreSQL"
    by (simp add: example_db_def)
  then show ?thesis
    by (simp add: get_equipment_utilization_def example_totals order_by_desc_def map_filter_simps
        utilization_entry_def py_or_def equipment_row_def)
qed

text \<open>
  Claim C5. With unique equipment ids, \<open>get_equipment_utilization\<close> returns, in some order, one
  entry for each equipment row and nothing else: its code, name, type and status, the number
  of production records that reference it and the sum of their ore tonnage. An equipment
  row that no production record references has the entry with count 0 and tonnage 0.
\<close>

theorem equipment_utilization_each_once:
  assumes "distinct (map eq_id (equipment db))"
  shows "mset (get_equipment_utilization db) =
         mset (map (\<lambda>e.
           \<lparr> equipment_code = eq_equipment_code e, name = eq_name e,
             equipment_type = eq_equipment_type e,
             status = map_option EquipmentStatus_value (eq_status e),
             total_production_records =
               length (filter (\<lambda>r. pr_equipment_id r = Some (eq_id e)) (production_records db)),
             uz_total_ore_extracted =
               (\<Sum>r\<leftarrow>filter (\<lambda>r. pr_equipment_id r = Some (eq_id e)) (production_records db).
                  or_zero (pr_ore_extracted_tonnes r)) \<rparr>) (equipment db)) \<and>
         (\<forall>e\<in>set (equipment db).
           (\<forall>r\<in>set (production_records db). pr_equipment_id r \<noteq> Some (eq_id e)) \<longrightarrow>
           \<lparr> equipment_code = eq_equipment_code e, name = eq_name e,
             equipment_type = eq_equipment_type e,
             status = map_option EquipmentStatus_value (eq_status e),
             total_production_records = 0, uz_total_ore_extracted = 0 \<rparr>
           \<in> set (get_equipment_utilization db))"
proof -
  have "mset (get_equipment_utilization db) =
        mset (map (\<lambda>e. utilization_entry (totals_of db e)) (equipment db))"
    by (simp add: get_equipment_utilization_def mset_order_by_desc
        equipment_totals_eq [OF assms] multiset.map_comp comp_def)
  then have all: "mset (get_equipment_utilization db) =
         mset (map (\<lambda>e.
           \<lparr> equipment_code = eq_equipment_code e, name = eq_name e,
             equipment_type = eq_equipment_type e,
             status = map_option EquipmentStatus_value (eq_status e),
             total_production_records =
               length (filter (\<lambda>r. pr_equipment_id r = Some (eq_id e)) (production_records db)),
             uz_total_ore_extracted =
               (\<Sum>r\<leftarrow>filter (\<lambda>r. pr_equipment_id r = Some (eq_id e)) (production_records db).
                  or_zero (pr_ore_extracted_tonnes r)) \<rparr>) (equipment db))"
    by (simp only: utilization_entry_totals_of)
  have idle: "\<lparr> equipment_code = eq_equipment_code e, name = eq_name e,
             equipment_type = eq_equipment_type e,
             status = map_option EquipmentStatus_value (eq_status e),
             total_production_records = 0, uz_total_ore_extracted = 0 \<rparr>
           \<in> set (get_equipment_utilization db)"
    if e: "e \<in> set (equipment db)"
      and none: "\<forall>r\<in>set (production_records db). pr_equipment_id r \<noteq> Some (eq_id e)" for e
  proof -
    from none have "filter (\<lambda>r. pr_equipment_id r = Some (eq_id e)) (production_records db) = []"
      by (simp add: filter_empty_conv)
    with e have "\<lparr> equipment_code = eq_equipment_code e, name = eq_name e,
             equipment_type = eq_equipment_type e,
             status = map_option EquipmentStatus_value (eq_status e),
             total_production_records = 0, uz_total_ore_extracted = 0 \<rparr>
        \<in># mset (get_equipment_utilization db)"
      unfolding all by (force simp: image_iff)
    then show ?thesis by simp
  qed
  from all idle show ?thesis by blast
qed

theorem equipment_utilization_each_once_witness:
  "mset (get_equipment_utilization example_db) =
     {# \<lparr> equipment_code = ''EQ-1'', name = ''Loader'', equipment_type = ''loader'',
          status = Some ''operational'', total_production_records = 0,
          uz_total_ore_extracted = 0 \<rparr>,
        \<lparr> equipment_code = ''EQ-2'', name = ''Loader'', equipment_type = ''loader'',
          status = Some ''operational'', total_production_records = 2,
          uz_total_ore_extracted = 31 / 2 \<rparr> #}"
proof -
  have keys: "distinct (map eq_id (equipment example_db))"
    by (simp add: example_db_def example_rows)
  from equipment_utilization_each_once [OF keys] show ?thesis
    by (simp add: example_db_def example_rows or_zero_def)
qed

text \<open>
  Claim C2. On PostgreSQL, the engine of \<open>app/db/database.py\<close>, \<open>ORDER BY SUM(...) DESC\<close> puts
  the equipment without production records (NULL sum) first, and the entry reports their
  tonnage as 0: in the example the returned tonnages are 0 and then 15.5, which is not
  non-increasing, and the equipment with a NULL sum is first, not last.
\<close>

theorem equipment_utilization_null_first:
  "map uz_total_ore_extracted (get_equipment_utilization example_db) = [0, 31 / 2] \<and>
   map total_production_records (get_equipment_utilization example_db) = [0, 2]"
  by (simp add: example_utilization)

text \<open>
  On SQLite, the engine of the tests, NULL sorts last when descending: there the returned
  tonnages are non-increasing, provided the equipment ids are unique and no record has a
  negative tonnage (the schemas admit none).
\<close>

lemma uz_utilization_entry:
  "uz_total_ore_extracted (utilization_entry r) = or_zero (et_total_ore r)"
  by (simp add: utilization_entry_def py_or_def or_zero_def split: option.splits)

lemma equipment_utilization_sqlite_descending:
  assumes "bind db = SQLite"
    and "distinct (map eq_id (equipment db))"
    and "\<forall>r\<in>set (production_records db). 0 \<le> or_zero (pr_ore_extracted_tonnes r)"
  shows "sorted_wrt (\<ge>) (map uz_total_ore_extracted (get_equipment_utilization db))"
proof -
  have "0 \<le> or_zero (et_total_ore (totals_of db e))" for e
  proof -
    have "0 \<le> (\<Sum>r\<leftarrow>filter (\<lambda>r. pr_equipment_id r = Some (eq_id e)) (production_records db).
                 or_zero (pr_ore_extracted_tonnes r))"
      using assms(3) by (intro sum_list_nonneg) auto
    then show ?thesis
      using utilization_entry_totals_of [of db e, THEN arg_cong, of uz_total_ore_extracted]
      by (simp add: uz_utilization_entry)
  qed
  then have "\<forall>r\<in>set (equipment_totals db). 0 \<le> or_zero (et_total_ore r)"
    by (auto simp: equipment_totals_eq [OF assms(2)])
  from order_by_desc_sqlite_descending [OF this] show ?thesis
    by (simp add: get_equipment_utilization_def assms(1) comp_def uz_utilization_entry)
qed


section \<open>Operations summary\<close>

lemma pending_maintenance_capped:
  "pending_maintenance (get_summary db today) =
   min 5 (length (filter (\<lambda>l. ml_is_completed l = Some False) (maintenance_logs db)))"
  by (simp add: get_summary_def get_maintenance_logs_def Let_def filter_if_def truthy_int_def
      offset_limit_def length_order_by_desc min.commute)

text \<open>
  Claim C3. With six maintenance logs whose completion flag is false, the summary reports
  \<open>pending_maintenance = 5\<close>: the count is taken from a listing limited to five rows.
\<close>

theorem summary_pending_maintenance_six_logs:
  "length (filter (\<lambda>l. ml_is_completed l = Some False) (maintenance_logs backlog_db)) = 6 \<and>
   pending_maintenance (get_summary backlog_db today) = 5"
  by (simp add: pending_maintenance_capped) (simp add: backlog_db_def log_row_def)


section \<open>Equipment metrics task\<close>

lemma efficiency_guarded:
  "efficiency r =
     Inr (case eq_operating_hours (et_equipment r) of
            None \<Rightarrow> 0
          | Some hours \<Rightarrow>
              (case et_total_ore r of
                 None \<Rightarrow> 0
               | Some ore \<Rightarrow> if 0 < hours \<and> ore \<noteq> 0 then py_round (ore / hours) 2 else 0))"
  by (auto simp: efficiency_def truediv_def split: option.splits)

lemma metrics_entry_ok:
  "\<exists>m. metrics_entry r = Inr m \<and> efficiency_tonnes_per_hour m = guarded_efficiency r"
  by (simp add: metrics_entry_def efficiency_guarded guarded_efficiency_def)

lemma metrics_loop_ok:
  "\<exists>ms. metrics_loop rs acc = Inr (acc @ ms) \<and>
        map efficiency_tonnes_per_hour ms = map guarded_efficiency rs"
proof (induction rs arbitrary: acc)
  case Nil
  show ?case by simp
next
  case (Cons r rs)
  obtain m where m: "metrics_entry r = Inr m" "efficiency_tonnes_per_hour m = guarded_efficiency r"
    using metrics_entry_ok by blast
  from Cons.IH [of "acc @ [m]"] obtain ms where
    "metrics_loop rs (acc @ [m]) = Inr ((acc @ [m]) @ ms)"
    "map efficiency_tonnes_per_hour ms = map guarded_efficiency rs"
    by blast
  with m have "metrics_loop (r # rs) acc = Inr (acc @ m # ms) \<and>
      map efficiency_tonnes_per_hour (m # ms) = map guarded_efficiency (r # rs)"
    by simp
  then show ?case by blast
qed

lemma py_round_example: "py_round (31 / 8) 2 = 97 / 25"
  by (simp add: py_round_def round_half_even_def Let_def)

text \<open>
  Claim C9. \<open>calculate_equipment_metrics\<close> never fails with a division by zero, and the
  efficiency of each equipment row is the ore total divided by the operating hours (rounded
  to two digits) when the operating hours are present and positive and the ore total is
  present and not zero; in every other case it is 0.
\<close>

theorem equipment_metrics_guarded_division:
  "\<exists>metrics. calculate_equipment_metrics db = Inr metrics \<and>
     map efficiency_tonnes_per_hour metrics =
     map (\<lambda>r. case eq_operating_hours (et_equipment r) of
                 None \<Rightarrow> 0
               | Some hours \<Rightarrow>
                   (case et_total_ore r of
                      None \<Rightarrow> 0
                    | Some ore \<Rightarrow>
                        if 0 < hours \<and> ore \<noteq> 0 then py_round (ore / hours) 2 else 0))
         (equipment_totals db)"
  using metrics_loop_ok [of "equipment_totals db" "[]"]
  by (simp add: calculate_equipment_metrics_def guarded_efficiency_def [abs_def])

theorem equipment_metrics_guarded_division_witness:
  "\<exists>metrics. calculate_equipment_metrics example_db = Inr metrics \<and>
     map efficiency_tonnes_per_hour metrics = [0, 97 / 25]"
  using equipment_metrics_guarded_division [of example_db]
  by (simp add: example_totals equipment_row_def py_round_example)


section \<open>Listing operations\<close>

text \<open>
  Claim C10, as amended. A filter argument tested by truthiness is skipped when it is zero
  or the empty string, as when it is omitted: \<open>shift_id\<close> and \<open>equipment_id\<close> of
  \<open>get_production_records\<close>, \<open>equipment_id\<close> of \<open>get_maintenance_logs\<close>, \<open>mine_section\<close> of
  \<open>get_shifts\<close> and \<open>equipment_type\<close> of \<open>get_all_equipment\<close>. The argument \<open>is_completed\<close> is
  tested with \<open>is not None\<close>: the falsy value \<open>False\<close> is applied as a filter, and every log
  returned for it is an incomplete one.
\<close>

theorem falsy_filters_skipped:
  "get_production_records db skip limit (Some 0) equipment_id =
     get_production_records db skip limit None equipment_id \<and>
   get_production_records db skip limit shift_id (Some 0) =
     get_production_records db skip limit shift_id None \<and>
   get_maintenance_logs db skip limit (Some 0) is_completed =
     get_maintenance_logs db skip limit None is_completed \<and>
   get_shifts db skip limit start_date end_date (Some []) =
     get_shifts db skip limit start_date end_date None \<and>
   get_all_equipment db skip limit status' (Some []) =
     get_all_equipment db skip limit status' None \<and>
   filter (\<lambda>l. ml_is_completed l \<noteq> Some False)
     (get_maintenance_logs db skip limit equipment_id (Some False)) = []"
proof -
  have "set (get_maintenance_logs db skip limit equipment_id (Some False))
        \<subseteq> {l. ml_is_completed l = Some False}"
  proof -
    have "set (get_maintenance_logs db skip limit equipment_id (Some False)) \<subseteq>
          set (filter (\<lambda>l. ml_is_completed l = Some False)
                 (filter_if (truthy_int equipment_id)
                    (\<lambda>l. sql_eq (Some (ml_equipment_id l)) equipment_id) (maintenance_logs db)))"
      unfolding get_maintenance_logs_def Let_def offset_limit_def
      by (rule subset_trans [OF set_take_subset], rule subset_trans [OF set_drop_subset])
        (simp add: set_order_by_desc filter_if_def)
    then show ?thesis by auto
  qed
  then have "filter (\<lambda>l. ml_is_completed l \<noteq> Some False)
     (get_maintenance_logs db skip limit equipment_id (Some False)) = []"
    by (auto simp: filter_empty_conv)
  then show ?thesis
    by (simp add: get_production_records_def get_maintenance_logs_def get_shifts_def
        get_all_equipment_def filter_if_def truthy_int_def truthy_str_def)
qed

theorem falsy_filters_skipped_witness:
  "get_production_records example_db 0 100 (Some 0) None =
     get_production_records example_db 0 100 None None \<and>
   get_maintenance_logs example_db 0 100 (Some 0) None = [log_row 1 1 False, log_row 2 2 True]"
  using falsy_filters_skipped [where db = example_db and skip = 0 and limit = 100
      and equipment_id = None and is_completed = None]
  by (simp add: get_maintenance_logs_def filter_if_def truthy_int_def offset_limit_def
      order_by_desc_def map_filter_simps example_db_def log_row_def)

text \<open>
  Claim C10 as stated fails for the falsy argument \<open>is_completed = False\<close>: the listing with
  it differs from the listing with the argument omitted.
\<close>

theorem completed_false_filter_applied:
  "get_maintenance_logs example_db 0 100 None (Some False) = [log_row 1 1 False] \<and>
   get_maintenance_logs example_db 0 100 None None = [log_row 1 1 False, log_row 2 2 True]"
  by (simp add: get_maintenance_logs_def filter_if_def truthy_int_def offset_limit_def
      order_by_desc_def map_filter_simps example_db_def log_row_def)


section \<open>Update operations\<close>

lemma kept_setattr [simp]: "kept f old (setattr old f)"
  by (simp add: kept_def setattr_def)

lemma kept_setattr_Some: "setattr (Some old) f = Some new \<Longrightarrow> kept f old new"
  by (auto simp: kept_def setattr_def)

lemma flush_cases: "P pending \<Longrightarrow> P (stamp pending) \<Longrightarrow> P (flush old pending stamp)"
  by (auto simp: flush_def)

lemma update_shift_stored:
  assumes "find (\<lambda>s. ms_id s = shift_id) (mining_shifts db) = Some old"
  shows "update_shift db now shift_id shift = Inl IntegrityError \<or>
         (\<exists>db' new. update_shift db now shift_id shift = Inr (db', Some new) \<and>
            shift_frame shift old new \<and>
            mining_shifts db' =
              map (\<lambda>s. if ms_id s = shift_id then new else s) (mining_shifts db) \<and>
            production_records db' = production_records db \<and> equipment db' = equipment db \<and>
            maintenance_logs db' = maintenance_logs db \<and> bind db' = bind db)"
proof (cases "update_shift db now shift_id shift")
  case (Inl err)
  then show ?thesis by (cases err) simp
next
  case (Inr out)
  with assms obtain shift_type' mine_section' where
    nn: "setattr (Some (ms_shift_type old)) (msu_shift_type shift) = Some shift_type'"
      "setattr (Some (ms_mine_section old)) (msu_mine_section shift) = Some mine_section'"
    by (auto simp: update_shift_def split: option.splits)
  let ?pending = "old\<lparr> ms_shift_type := shift_type', ms_mine_section := mine_section',
      ms_workers_count := setattr (ms_workers_count old) (msu_workers_count shift),
      ms_end_time := setattr (ms_end_time old) (msu_end_time shift),
      ms_notes := setattr (ms_notes old) (msu_notes shift) \<rparr>"
  let ?new = "flush old ?pending (\<lambda>r. r\<lparr> ms_updated_at := Some now \<rparr>)"
  from assms nn have "update_shift db now shift_id shift =
      Inr (db\<lparr> mining_shifts :=
                 map (\<lambda>s. if ms_id s = shift_id then ?new else s) (mining_shifts db) \<rparr>, Some ?new)"
    by (simp add: update_shift_def Let_def)
  moreover have "shift_frame shift old ?new"
    by (rule flush_cases) (simp_all add: shift_frame_def kept_setattr_Some nn)
  ultimately show ?thesis by simp
qed

lemma update_production_record_stored:
  assumes "find (\<lambda>r. pr_id r = record_id) (production_records db) = Some old"
  shows "\<exists>db' new. update_production_record db now record_id record = Inr (db', Some new) \<and>
            record_frame record old new \<and>
            production_records db' =
              map (\<lambda>r. if pr_id r = record_id then new else r) (production_records db) \<and>
            mining_shifts db' = mining_shifts db \<and> equipment db' = equipment db \<and>
            maintenance_logs db' = maintenance_logs db \<and> bind db' = bind db"
proof -
  let ?pending = "old\<lparr> pr_ore_extracted_tonnes :=
        setattr (pr_ore_extracted_tonnes old) (pru_ore_extracted_tonnes record),
      pr_waste_removed_tonnes :=
        setattr (pr_waste_removed_tonnes old) (pru_waste_removed_tonnes record),
      pr_ore_grade_percentage :=
        setattr (pr_ore_grade_percentage old) (pru_ore_grade_percentage record),
      pr_depth_meters := setattr (pr_depth_meters old) (pru_depth_meters record),
      pr_mining_level := setattr (pr_mining_level old) (pru_mining_level record),
      pr_stope_number := setattr (pr_stope_number old) (pru_stope_number record) \<rparr>"
  let ?new = "flush old ?pending (\<lambda>r. r\<lparr> pr_updated_at := Some now \<rparr>)"
  from assms have "update_production_record db now record_id record =
      Inr (db\<lparr> production_records :=
                 map (\<lambda>r. if pr_id r = record_id then ?new else r) (production_records db) \<rparr>,
           Some ?new)"
    by (simp add: update_production_record_def Let_def)
  moreover have "record_frame record old ?new"
    by (rule flush_cases) (simp_all add: record_frame_def)
  ultimately show ?thesis by simp
qed

lemma update_equipment_stored:
  assumes "find (\<lambda>e. eq_id e = equipment_id) (equipment db) = Some old"
  shows "update_equipment db now equipment_id equipment' = Inl IntegrityError \<or>
         (\<exists>db' new. update_equipment db now equipment_id equipment' = Inr (db', Some new) \<and>
            equipment_frame equipment' old new \<and>
            equipment db' = map (\<lambda>e. if eq_id e = equipment_id then new else e) (equipment db) \<and>
            mining_shifts db' = mining_shifts db \<and>
            production_records db' = production_records db \<and>
            maintenance_logs db' = maintenance_logs db \<and> bind db' = bind db)"
proof (cases "update_equipment db now equipment_id equipment'")
  case (Inl err)
  then show ?thesis by (cases err) simp
next
  case (Inr out)
  with assms obtain name' where
    nn: "setattr (Some (eq_name old)) (equ_name equipment') = Some name'"
    by (auto simp: update_equipment_def split: option.splits)
  let ?pending = "old\<lparr> eq_name := name',
      eq_status := setattr (eq_status old) (equ_status equipment'),
      eq_operating_hours := setattr (eq_operating_hours old) (equ_operating_hours equipment'),
      eq_current_location := setattr (eq_current_location old) (equ_current_location equipment'),
      eq_assigned_section := setattr (eq_assigned_section old) (equ_assigned_section equipment'),
      eq_last_maintenance_date :=
        setattr (eq_last_maintenance_date old) (equ_last_maintenance_date equipment'),
      eq_next_maintenance_date :=
        setattr (eq_next_maintenance_date old) (equ_next_maintenance_date equipment') \<rparr>"
  let ?new = "flush old ?pending (\<lambda>r. r\<lparr> eq_updated_at := Some now \<rparr>)"
  from assms nn have "update_equipment db now equipment_id equipment' =
      Inr (db\<lparr> equipment :=
                 map (\<lambda>e. if eq_id e = equipment_id then ?new else e) (equipment db) \<rparr>, Some ?new)"
    by (simp add: update_equipment_def Let_def)
  moreover have "equipment_frame equipment' old ?new"
    by (rule flush_cases) (simp_all add: equipment_frame_def kept_setattr_Some nn)
  ultimately show ?thesis by simp
qed

lemma update_maintenance_log_stored:
  assumes "find (\<lambda>l. ml_id l = log_id) (maintenance_logs db) = Some old"
  shows "update_maintenance_log db now log_id log' = Inl IntegrityError \<or>
         (\<exists>db' new. update_maintenance_log db now log_id log' = Inr (db', Some new) \<and>
            log_frame log' old new \<and>
            maintenance_logs db' =
              map (\<lambda>l. if ml_id l = log_id then new else l) (maintenance_logs db) \<and>
            mining_shifts db' = mining_shifts db \<and>
            production_records db' = production_records db \<and>
            equipment db' = equipment db \<and> bind db' = bind db)"
proof (cases "update_maintenance_log db now log_id log'")
  case (Inl err)
  then show ?thesis by (cases err) simp
next
  case (Inr out)
  with assms obtain description' where
    nn: "setattr (Some (ml_description old)) (mlu_description log') = Some description'"
    by (auto simp: update_maintenance_log_def split: option.splits)
  let ?pending = "old\<lparr> ml_description := description',
      ml_technician_name := setattr (ml_technician_name old) (mlu_technician_name log'),
      ml_labor_hours := setattr (ml_labor_hours old) (mlu_labor_hours log'),
      ml_parts_cost := setattr (ml_parts_cost old) (mlu_parts_cost log'),
      ml_total_cost := setattr (ml_total_cost old) (mlu_total_cost log'),
      ml_parts_replaced := setattr (ml_parts_replaced old) (mlu_parts_replaced log'),
      ml_is_completed := setattr (ml_is_completed old) (mlu_is_completed log'),
      ml_completed_date := setattr (ml_completed_date old) (mlu_completed_date log') \<rparr>"
  let ?new = "flush old ?pending (\<lambda>r. r\<lparr> ml_updated_at := Some now \<rparr>)"
  from assms nn have "update_maintenance_log db now log_id log' =
      Inr (db\<lparr> maintenance_logs :=
                 map (\<lambda>l. if ml_id l = log_id then ?new else l) (maintenance_logs db) \<rparr>, Some ?new)"
    by (simp add: update_maintenance_log_def Let_def)
  moreover have "log_frame log' old ?new"
    by (rule flush_cases) (simp_all add: log_frame_def kept_setattr_Some nn)
  ultimately show ?thesis by simp
qed

lemma example_update_shift:
  "update_shift example_db 200 1 notes_update =
     Inr (example_db \<lparr> mining_shifts :=
            [(shift_row 1 10) \<lparr> ms_notes := Some ''blast delayed'', ms_updated_at := Some 200 \<rparr>,
             shift_row 2 12] \<rparr>,
          Some ((shift_row 1 10) \<lparr> ms_notes := Some ''blast delayed'', ms_updated_at := Some 200 \<rparr>))"
  by (simp add: update_shift_def notes_update_def setattr_def flush_def Let_def example_db_def shift_row_def)

lemma example_update_production_record:
  "update_production_record example_db 200 1 ore_update =
     Inr (example_db \<lparr> production_records :=
            [(record_row 1 1 (Some 2) 10)
               \<lparr> pr_ore_extracted_tonnes := Some 12, pr_updated_at := Some 200 \<rparr>,
             record_row 2 1 (Some 2) (11 / 2), record_row 3 2 None 7] \<rparr>,
          Some ((record_row 1 1 (Some 2) 10)
                  \<lparr> pr_ore_extracted_tonnes := Some 12, pr_updated_at := Some 200 \<rparr>))"
  by (simp add: update_production_record_def ore_update_def setattr_def flush_def Let_def example_db_def
      record_row_def)

lemma example_update_equipment:
  "update_equipment example_db 200 1 status_update =
     Inr (example_db \<lparr> equipment :=
            [(equipment_row 1 ''EQ-1'' (Some 0))
               \<lparr> eq_status := Some MAINTENANCE, eq_updated_at := Some 200 \<rparr>,
             equipment_row 2 ''EQ-2'' (Some 4)] \<rparr>,
          Some ((equipment_row 1 ''EQ-1'' (Some 0))
                  \<lparr> eq_status := Some MAINTENANCE, eq_updated_at := Some 200 \<rparr>))"
  by (simp add: update_equipment_def status_update_def setattr_def flush_def Let_def example_db_def
      equipment_row_def)

lemma example_update_maintenance_log:
  "update_maintenance_log example_db 200 1 completion_update =
     Inr (example_db \<lparr> maintenance_logs :=
            [(log_row 1 1 False) \<lparr> ml_is_completed := Some True, ml_updated_at := Some 200 \<rparr>,
             log_row 2 2 True] \<rparr>,
          Some ((log_row 1 1 False) \<lparr> ml_is_completed := Some True, ml_updated_at := Some 200 \<rparr>))"
  by (simp add: update_maintenance_log_def completion_update_def setattr_def flush_def Let_def
      example_db_def log_row_def)

text \<open>
  Claim C8, as amended. An update operation on an existing row either fails at the commit,
  and then stores nothing, or it returns the row it stored, and then: every column of that
  row other than \<open>updated_at\<close> whose field is unset in the request (or is not a field of the
  request at all) has its previous value; in its table the row replaces the one with that
  id and every other row is as before; the other tables are as before. This holds for
  \<open>update_shift\<close>, \<open>update_production_record\<close>, \<open>update_equipment\<close> and
  \<open>update_maintenance_log\<close>.
\<close>

theorem update_modifies_only_given_fields:
  "(find (\<lambda>s. ms_id s = shift_id) (mining_shifts db) = Some s \<longrightarrow>
      update_shift db now shift_id shift = Inl IntegrityError \<or>
      (\<exists>db' s'. update_shift db now shift_id shift = Inr (db', Some s') \<and>
         shift_frame shift s s' \<and>
         mining_shifts db' = map (\<lambda>x. if ms_id x = shift_id then s' else x) (mining_shifts db) \<and>
         production_records db' = production_records db \<and> equipment db' = equipment db \<and>
         maintenance_logs db' = maintenance_logs db \<and> bind db' = bind db)) \<and>
   (find (\<lambda>r. pr_id r = record_id) (production_records db) = Some r \<longrightarrow>
      (\<exists>db' r'. update_production_record db now record_id record = Inr (db', Some r') \<and>
         record_frame record r r' \<and>
         production_records db' =
           map (\<lambda>x. if pr_id x = record_id then r' else x) (production_records db) \<and>
         mining_shifts db' = mining_shifts db \<and> equipment db' = equipment db \<and>
         maintenance_logs db' = maintenance_logs db \<and> bind db' = bind db)) \<and>
   (find (\<lambda>e. eq_id e = equipment_id) (equipment db) = Some e \<longrightarrow>
      update_equipment db now equipment_id equipment' = Inl IntegrityError \<or>
      (\<exists>db' e'. update_equipment db now equipment_id equipment' = Inr (db', Some e') \<and>
         equipment_frame equipment' e e' \<and>
         equipment db' = map (\<lambda>x. if eq_id x = equipment_id then e' else x) (equipment db) \<and>
         mining_shifts db' = mining_shifts db \<and>
         production_records db' = production_records db \<and>
         maintenance_logs db' = maintenance_logs db \<and> bind db' = bind db)) \<and>
   (find (\<lambda>l. ml_id l = log_id) (maintenance_logs db) = Some l \<longrightarrow>
      update_maintenance_log db now log_id log' = Inl IntegrityError \<or>
      (\<exists>db' l'. update_maintenance_log db now log_id log' = Inr (db', Some l') \<and>
         log_frame log' l l' \<and>
         maintenance_logs db' =
           map (\<lambda>x. if ml_id x = log_id then l' else x) (maintenance_logs db) \<and>
         mining_shifts db' = mining_shifts db \<and>
         production_records db' = production_records db \<and>
         equipment db' = equipment db \<and> bind db' = bind db))"
proof (intro conjI impI)
  assume "find (\<lambda>s. ms_id s = shift_id) (mining_shifts db) = Some s"
  then show "update_shift db now shift_id shift = Inl IntegrityError \<or>
      (\<exists>db' s'. update_shift db now shift_id shift = Inr (db', Some s') \<and>
         shift_frame shift s s' \<and>
         mining_shifts db' = map (\<lambda>x. if ms_id x = shift_id then s' else x) (mining_shifts db) \<and>
         production_records db' = production_records db \<and> equipment db' = equipment db \<and>
         maintenance_logs db' = maintenance_logs db \<and> bind db' = bind db)"
    by (rule update_shift_stored)
next
  assume "find (\<lambda>r. pr_id r = record_id) (production_records db) = Some r"
  then show "\<exists>db' r'. update_production_record db now record_id record = Inr (db', Some r') \<and>
         record_frame record r r' \<and>
         production_records db' =
           map (\<lambda>x. if pr_id x = record_id then r' else x) (production_records db) \<and>
         mining_shifts db' = mining_shifts db \<and> equipment db' = equipment db \<and>
         maintenance_logs db' = maintenance_logs db \<and> bind db' = bind db"
    by (rule update_production_record_stored)
next
  assume "find (\<lambda>e. eq_id e = equipment_id) (equipment db) = Some e"
  then show "update_equipment db now equipment_id equipment' = Inl IntegrityError \<or>
      (\<exists>db' e'. update_equipment db now equipment_id equipment' = Inr (db', Some e') \<and>
         equipment_frame equipment' e e' \<and>
         equipment db' = map (\<lambda>x. if eq_id x = equipment_id then e' else x) (equipment db) \<and>
         mining_shifts db' = mining_shifts db \<and>
         production_records db' = production_records db \<and>
         maintenance_logs db' = maintenance_logs db \<and> bind db' = bind db)"
    by (rule update_equipment_stored)
next
  assume "find (\<lambda>l. ml_id l = log_id) (maintenance_logs db) = Some l"
  then show "update_maintenance_log db now log_id log' = Inl IntegrityError \<or>
      (\<exists>db' l'. update_maintenance_log db now log_id log' = Inr (db', Some l') \<and>
         log_frame log' l l' \<and>
         maintenance_logs db' =
           map (\<lambda>x. if ml_id x = log_id then l' else x) (maintenance_logs db) \<and>
         mining_shifts db' = mining_shifts db \<and>
         production_records db' = production_records db \<and>
         equipment db' = equipment db \<and> bind db' = bind db)"
    by (rule update_maintenance_log_stored)
qed

theorem update_modifies_only_given_fields_witness:
  "(\<exists>db' s'. update_shift example_db 200 1 notes_update = Inr (db', Some s') \<and>
      shift_frame notes_update (shift_row 1 10) s' \<and>
      mining_shifts db' = [s', shift_row 2 12] \<and>
      production_records db' = production_records example_db \<and>
      equipment db' = equipment example_db \<and>
      maintenance_logs db' = maintenance_logs example_db) \<and>
   (\<exists>db' r'. update_production_record example_db 200 1 ore_update = Inr (db', Some r') \<and>
      record_frame ore_update (record_row 1 1 (Some 2) 10) r' \<and>
      production_records db' = [r', record_row 2 1 (Some 2) (11 / 2), record_row 3 2 None 7] \<and>
      mining_shifts db' = mining_shifts example_db \<and>
      equipment db' = equipment example_db \<and>
      maintenance_logs db' = maintenance_logs example_db) \<and>
   (\<exists>db' e'. update_equipment example_db 200 1 status_update = Inr (db', Some e') \<and>
      equipment_frame status_update (equipment_row 1 ''EQ-1'' (Some 0)) e' \<and>
      equipment db' = [e', equipment_row 2 ''EQ-2'' (Some 4)] \<and>
      mining_shifts db' = mining_shifts example_db \<and>
      production_records db' = production_records example_db \<and>
      maintenance_logs db' = maintenance_logs example_db) \<and>
   (\<exists>db' l'. update_maintenance_log example_db 200 1 completion_update = Inr (db', Some l') \<and>
      log_frame completion_update (log_row 1 1 False) l' \<and>
      maintenance_logs db' = [l', log_row 2 2 True] \<and>
      mining_shifts db' = mining_shifts example_db \<and>
      production_records db' = production_records example_db \<and>
      equipment db' = equipment example_db)"
proof -
  have found:
    "find (\<lambda>s. ms_id s = 1) (mining_shifts example_db) = Some (shift_row 1 10)"
    "find (\<lambda>r. pr_id r = 1) (production_records example_db) = Some (record_row 1 1 (Some 2) 10)"
    "find (\<lambda>e. eq_id e = 1) (equipment example_db) = Some (equipment_row 1 ''EQ-1'' (Some 0))"
    "find (\<lambda>l. ml_id l = 1) (maintenance_logs example_db) = Some (log_row 1 1 False)"
    by (simp_all add: example_db_def example_rows)
  have tables:
    "mining_shifts example_db = [shift_row 1 10, shift_row 2 12]"
    "production_records example_db =
       [record_row 1 1 (Some 2) 10, record_row 2 1 (Some 2) (11 / 2), record_row 3 2 None 7]"
    "equipment example_db = [equipment_row 1 ''EQ-1'' (Some 0), equipment_row 2 ''EQ-2'' (Some 4)]"
    "maintenance_logs example_db = [log_row 1 1 False, log_row 2 2 True]"
    by (simp_all add: example_db_def)
  have ids:
    "ms_id (shift_row 1 10) = 1" "ms_id (shift_row 2 12) = 2"
    "pr_id (record_row 1 1 (Some 2) 10) = 1" "pr_id (record_row 2 1 (Some 2) (11 / 2)) = 2"
    "pr_id (record_row 3 2 None 7) = 3"
    "eq_id (equipment_row 1 ''EQ-1'' (Some 0)) = 1" "eq_id (equipment_row 2 ''EQ-2'' (Some 4)) = 2"
    "ml_id (log_row 1 1 False) = 1" "ml_id (log_row 2 2 True) = 2"
    by (simp_all add: example_rows)
  note frame = update_modifies_only_given_fields [where db = example_db and now = 200
      and shift_id = 1 and record_id = 1 and equipment_id = 1 and log_id = 1]
  have "\<exists>db' s'. update_shift example_db 200 1 notes_update = Inr (db', Some s') \<and>
      shift_frame notes_update (shift_row 1 10) s' \<and>
      mining_shifts db' = [s', shift_row 2 12] \<and>
      production_records db' = production_records example_db \<and>
      equipment db' = equipment example_db \<and>
      maintenance_logs db' = maintenance_logs example_db"
    using frame [THEN conjunct1, rule_format, OF found(1), of notes_update]
    by (simp add: example_update_shift tables ids)
  moreover have "\<exists>db' r'. update_production_record example_db 200 1 ore_update = Inr (db', Some r') \<and>
      record_frame ore_update (record_row 1 1 (Some 2) 10) r' \<and>
      production_records db' = [r', record_row 2 1 (Some 2) (11 / 2), record_row 3 2 None 7] \<and>
      mining_shifts db' = mining_shifts example_db \<and>
      equipment db' = equipment example_db \<and>
      maintenance_logs db' = maintenance_logs example_db"
    using frame [THEN conjunct2, THEN conjunct1, rule_format, OF found(2), of ore_update]
    by (simp add: example_update_production_record tables ids)
  moreover have "\<exists>db' e'. update_equipment example_db 200 1 status_update = Inr (db', Some e') \<and>
      equipment_frame status_update (equipment_row 1 ''EQ-1'' (Some 0)) e' \<and>
      equipment db' = [e', equipment_row 2 ''EQ-2'' (Some 4)] \<and>
      mining_shifts db' = mining_shifts example_db \<and>
      production_records db' = production_records example_db \<and>
      maintenance_logs db' = maintenance_logs example_db"
    using frame [THEN conjunct2, THEN conjunct2, THEN conjunct1, rule_format, OF found(3),
        of status_update]
    by (simp add: example_update_equipment tables ids)
  moreover have "\<exists>db' l'. update_maintenance_log example_db 200 1 completion_update =
        Inr (db', Some l') \<and>
      log_frame completion_update (log_row 1 1 False) l' \<and>
      maintenance_logs db' = [l', log_row 2 2 True] \<and>
      mining_shifts db' = mining_shifts example_db \<and>
      production_records db' = production_records example_db \<and>
      equipment db' = equipment example_db"
    using frame [THEN conjunct2, THEN conjunct2, THEN conjunct2, rule_format, OF found(4),
        of completion_update]
    by (simp add: example_update_maintenance_log tables ids)
  ultimately show ?thesis by blast
qed

text \<open>
  Claim C8 as stated fails for the column \<open>updated_at\<close>: a request that gives only \<open>notes\<close>
  changes \<open>updated_at\<close> of the shift from 100 to the time of the update, 200.
\<close>

theorem update_shift_changes_updated_at:
  "msu_notes notes_update \<noteq> Unset \<and>
   find (\<lambda>s. ms_id s = 1) (mining_shifts example_db) = Some (shift_row 1 10) \<and>
   ms_updated_at (shift_row 1 10) = Some 100 \<and>
   update_shift example_db 200 1 notes_update =
     Inr (example_db \<lparr> mining_shifts :=
            [(shift_row 1 10) \<lparr> ms_notes := Some ''blast delayed'', ms_updated_at := Some 200 \<rparr>,
             shift_row 2 12] \<rparr>,
          Some ((shift_row 1 10) \<lparr> ms_notes := Some ''blast delayed'', ms_updated_at := Some 200 \<rparr>)) \<and>
   ms_updated_at
     ((shift_row 1 10) \<lparr> ms_notes := Some ''blast delayed'', ms_updated_at := Some 200 \<rparr>) = Some 200"
  by (simp add: example_update_shift) (simp add: example_db_def shift_row_def notes_update_def)

end
